theory Spec2Isabelle
  imports Complex_Main "HOL-Library.Multiset"
begin

section \<open>Data model\<close>

text \<open>
  The three serverless handlers of the library room booking service
  (\<^verbatim>\<open>getRooms\<close>, \<^verbatim>\<open>getRoomSchedules\<close>, \<^verbatim>\<open>submitBookingRequest\<close>) read and write three
  tables of a relational store.  Instants are the time values of JavaScript \<^verbatim>\<open>Date\<close>
  objects: milliseconds since the epoch.  The store compares timestamps as instants, so
  the ISO strings the handlers hand to the query builder are modelled by the instants
  they denote.  The server's local time zone is UTC (no daylight saving), and numbers
  are exact integers.
\<close>

type_synonym instant = int

record room =
  r_id :: int
  r_name :: string
  r_access_group :: string
  r_is_active :: bool

record booking =
  b_id :: int
  b_room_id :: int
  b_student_id :: string
  b_start_time :: instant
  b_end_time :: instant

record booking_request =
  q_id :: int
  q_student_id :: string
  q_room_id :: int
  q_start_time :: instant
  q_end_time :: instant
  q_status :: string

text \<open>
  The store: the rows of the three tables in storage order, and the state of the
  sequence that numbers new \<^verbatim>\<open>booking_requests\<close> rows.
\<close>

record store =
  rooms :: "room list"
  bookings :: "booking list"
  booking_requests :: "booking_request list"
  next_request_id :: int

text \<open>
  Every query of a handler may fail; the query builder then returns an \<^verbatim>\<open>error\<close> object.
  Which of the queries of one handler run fail, and with which message, is an input
  of the model.
\<close>

record faults =
  roomsError :: "string option"
  bookingsError :: "string option"
  pendingError :: "string option"
  insertError :: "string option"

definition no_faults :: faults where
  "no_faults = \<lparr>roomsError = None, bookingsError = None, pendingError = None, insertError = None\<rparr>"

subsection \<open>Requests and responses\<close>

text \<open>
  The JSON body of a submission as the client sends it: \<^verbatim>\<open>student_id\<close> and \<^verbatim>\<open>start_time\<close>
  are strings, \<^verbatim>\<open>room_id\<close> and \<^verbatim>\<open>duration\<close> are integers; \<open>None\<close> is a field that is
  absent or \<^verbatim>\<open>null\<close>.  The body of an event is \<open>Inl msg\<close> when \<^verbatim>\<open>JSON.parse\<close> or the
  destructuring of its result throws an exception with message \<open>msg\<close>.  A body with a
  field of another JSON type (a boolean, a fraction, a string for a number, an array, an
  object) is not a value of this record: the handler applies its tests to such a field
  through the conversions of JavaScript.  The section on JSON bodies below models the
  handler on every body, and agrees with this model on the bodies of this record.
\<close>

record submission =
  student_id :: "string option"
  room_id :: "int option"
  start_time :: "string option"
  duration :: "int option"

record event =
  httpMethod :: string
  body :: "string + submission"

record room_status =
  rs_id :: int
  rs_name :: string
  is_available :: bool

record schedule_entry =
  se_student_id :: string
  se_start_time :: instant
  se_end_time :: instant

record room_schedule =
  sch_id :: int
  sch_name :: string
  sch_bookings :: "schedule_entry list"

text \<open>
  The JSON bodies the handlers produce.  \<open>Schedules\<close> carries the date as the number of
  the day since the epoch, which stands for the string \<^verbatim>\<open>YYYY-MM-DD\<close>.
\<close>

datatype json_body =
    Empty
  | Message string
  | Failed string string
  | Submitted string int
  | RoomsWithStatus "room_status list"
  | Schedules int "room_schedule list"

record response =
  statusCode :: nat
  resp_body :: json_body

section \<open>The store's queries\<close>

text \<open>\<^verbatim>\<open>from('rooms').select(...).eq('is_active', true).order('id')\<close>\<close>

definition select_active_rooms :: "faults \<Rightarrow> store \<Rightarrow> string + room list" where
  "select_active_rooms f s =
     (case roomsError f of
        Some e \<Rightarrow> Inl e
      | None \<Rightarrow> Inr (sort_key r_id (filter r_is_active (rooms s))))"

text \<open>
  \<^verbatim>\<open>from('rooms').select('id, is_active').eq('id', room_id).single()\<close>: a row only when
  exactly one matches.  The handler treats an error and an absent row alike, so both
  are \<open>None\<close>.
\<close>

definition select_room :: "faults \<Rightarrow> store \<Rightarrow> int \<Rightarrow> room option" where
  "select_room f s rid =
     (case roomsError f of
        Some e \<Rightarrow> None
      | None \<Rightarrow> (case filter (\<lambda>r. r_id r = rid) (rooms s) of
                   [r] \<Rightarrow> Some r
                 | _ \<Rightarrow> None))"

text \<open>\<^verbatim>\<open>from('bookings').select(...).gte('end_time', now).lte('start_time', now)\<close>\<close>

definition select_active_bookings :: "faults \<Rightarrow> store \<Rightarrow> instant \<Rightarrow> string + booking list" where
  "select_active_bookings f s now =
     (case bookingsError f of
        Some e \<Rightarrow> Inl e
      | None \<Rightarrow> Inr (filter (\<lambda>b. b_end_time b \<ge> now \<and> b_start_time b \<le> now) (bookings s)))"

text \<open>
  \<^verbatim>\<open>from('bookings').select(...).gte('end_time', todayStart).lte('start_time', todayEnd)
  .order('start_time')\<close>.  Rows with the same start time stay in storage order.
\<close>

definition select_bookings_between :: "faults \<Rightarrow> store \<Rightarrow> instant \<Rightarrow> instant \<Rightarrow> string + booking list" where
  "select_bookings_between f s todayStart todayEnd =
     (case bookingsError f of
        Some e \<Rightarrow> Inl e
      | None \<Rightarrow> Inr (sort_key b_start_time
                  (filter (\<lambda>b. b_end_time b \<ge> todayStart \<and> b_start_time b \<le> todayEnd) (bookings s))))"

text \<open>
  \<^verbatim>\<open>from('bookings').select('id').eq('room_id', room_id).lt('start_time', end)
  .gt('end_time', start)\<close>
\<close>

definition select_conflicts :: "faults \<Rightarrow> store \<Rightarrow> int \<Rightarrow> instant \<Rightarrow> instant \<Rightarrow> string + int list" where
  "select_conflicts f s rid startDate endDate =
     (case bookingsError f of
        Some e \<Rightarrow> Inl e
      | None \<Rightarrow> Inr (map b_id (filter (\<lambda>b. b_room_id b = rid \<and> b_start_time b < endDate
                                       \<and> b_end_time b > startDate) (bookings s))))"

text \<open>
  \<^verbatim>\<open>from('booking_requests').select('id').eq('room_id', room_id).eq('status', 'pending')
  .lt('start_time', end).gt('end_time', start)\<close>
\<close>

definition select_pending_conflicts :: "faults \<Rightarrow> store \<Rightarrow> int \<Rightarrow> instant \<Rightarrow> instant \<Rightarrow> string + int list" where
  "select_pending_conflicts f s rid startDate endDate =
     (case pendingError f of
        Some e \<Rightarrow> Inl e
      | None \<Rightarrow> Inr (map q_id (filter (\<lambda>q. q_room_id q = rid \<and> q_status q = ''pending''
                                       \<and> q_start_time q < endDate
                                       \<and> q_end_time q > startDate) (booking_requests s))))"

text \<open>
  \<^verbatim>\<open>from('booking_requests').insert({...}).select().single()\<close>: the new row gets the next
  number of the sequence and is returned; a failed insert leaves the table as it was.
\<close>

definition insert_request ::
  "faults \<Rightarrow> store \<Rightarrow> string \<Rightarrow> int \<Rightarrow> instant \<Rightarrow> instant \<Rightarrow> string \<Rightarrow> string + (booking_request \<times> store)" where
  "insert_request f s sid rid startDate endDate st =
     (case insertError f of
        Some e \<Rightarrow> Inl e
      | None \<Rightarrow>
          (let newRequest = \<lparr>q_id = next_request_id s, q_student_id = sid, q_room_id = rid,
                             q_start_time = startDate, q_end_time = endDate,
                             q_status = st\<rparr>
           in Inr (newRequest,
                   s\<lparr>booking_requests := booking_requests s @ [newRequest],
                     next_request_id := next_request_id s + 1\<rparr>)))"

section \<open>JavaScript built-ins used by the handlers\<close>

text \<open>The test \<^verbatim>\<open>/^[0-9]{6,7}$/.test(student_id)\<close>.\<close>

definition is_digit :: "char \<Rightarrow> bool" where
  "is_digit c = (c \<in> set ''0123456789'')"

definition student_id_ok :: "string \<Rightarrow> bool" where
  "student_id_ok sid = ((length sid = 6 \<or> length sid = 7) \<and> list_all is_digit sid)"

text \<open>\<^verbatim>\<open>str.split(':')\<close>: the pieces between the colons, at least one.\<close>

fun split_colon :: "string \<Rightarrow> string list" where
  "split_colon [] = [[]]"
| "split_colon (c # cs) =
     (if c = CHR '':'' then [] # split_colon cs
      else (case split_colon cs of
              [] \<Rightarrow> [[c]]
            | p # ps \<Rightarrow> (c # p) # ps))"

text \<open>
  \<^verbatim>\<open>parseInt(str)\<close> with no radix: leading white space is skipped, a sign is read, the
  prefix \<^verbatim>\<open>0x\<close> selects radix 16, and the longest run of digits is the value; no digit
  gives \<^verbatim>\<open>NaN\<close>, which is \<open>None\<close>.  Strings are sequences of code units below 256.
\<close>

definition is_white_space :: "char \<Rightarrow> bool" where
  "is_white_space c = (of_char c \<in> {9, 10, 11, 12, 13, 32, 160 :: nat})"

definition digit_value :: "char \<Rightarrow> nat option" where
  "digit_value c =
     (let n = (of_char c :: nat)
      in if 48 \<le> n \<and> n \<le> 57 then Some (n - 48)
         else if 97 \<le> n \<and> n \<le> 102 then Some (n - 87)
         else if 65 \<le> n \<and> n \<le> 70 then Some (n - 55)
         else None)"

definition is_radix_digit :: "nat \<Rightarrow> char \<Rightarrow> bool" where
  "is_radix_digit R c = (case digit_value c of Some d \<Rightarrow> d < R | None \<Rightarrow> False)"

definition radix_value :: "nat \<Rightarrow> string \<Rightarrow> nat" where
  "radix_value R Z = foldl (\<lambda>a c. a * R + (case digit_value c of Some d \<Rightarrow> d | None \<Rightarrow> 0)) 0 Z"

definition parse_digits :: "bool \<Rightarrow> string \<Rightarrow> int option" where
  "parse_digits neg S =
     (let hex = (take 2 S = ''0x'' \<or> take 2 S = ''0X'');
          R = (if hex then 16 else 10);
          Z = takeWhile (is_radix_digit R) (if hex then drop 2 S else S)
      in if Z = [] then None
         else Some ((if neg then - 1 else 1) * int (radix_value R Z)))"

definition parseInt :: "string \<Rightarrow> int option" where
  "parseInt str =
     (case dropWhile is_white_space str of
        [] \<Rightarrow> None
      | c # cs \<Rightarrow>
          if c = CHR ''-'' then parse_digits True cs
          else if c = CHR ''+'' then parse_digits False cs
          else parse_digits False (c # cs))"

text \<open>
  \<^verbatim>\<open>const [hours, minutes] = start_time.split(':')\<close> followed by \<^verbatim>\<open>parseInt\<close> of each:
  a missing second piece is \<^verbatim>\<open>undefined\<close>, whose \<^verbatim>\<open>parseInt\<close> is \<^verbatim>\<open>NaN\<close>.
\<close>

definition parse_clock :: "string \<Rightarrow> int option \<times> int option" where
  "parse_clock st =
     (case split_colon st of
        [] \<Rightarrow> (None, None)
      | [hours] \<Rightarrow> (parseInt hours, None)
      | hours # minutes # _ \<Rightarrow> (parseInt hours, parseInt minutes))"

text \<open>
  Dates.  \<open>None\<close> is the invalid date, whose time value is \<^verbatim>\<open>NaN\<close>.  A time value is
  valid up to \<open>8.64e15\<close> in absolute value.  \<open>local_midnight t\<close> is the start of the day of
  \<open>t\<close>, which \<^verbatim>\<open>new Date(t.getFullYear(), t.getMonth(), t.getDate(), ...)\<close> starts from;
  hours and minutes beyond 23 and 59 carry into the following days and hours.
\<close>

definition msPerDay :: int where
  "msPerDay = 86400000"

definition local_midnight :: "instant \<Rightarrow> instant" where
  "local_midnight t = t - t mod msPerDay"

definition day_number :: "instant \<Rightarrow> int" where
  "day_number t = t div msPerDay"

definition time_clip :: "int \<Rightarrow> instant option" where
  "time_clip t = (if \<bar>t\<bar> \<le> 8640000000000000 then Some t else None)"

definition date_of_clock :: "instant \<Rightarrow> int option \<Rightarrow> int option \<Rightarrow> instant option" where
  "date_of_clock today hours minutes =
     (case hours of
        None \<Rightarrow> None
      | Some h \<Rightarrow>
          (case minutes of
             None \<Rightarrow> None
           | Some m \<Rightarrow> time_clip (local_midnight today + h * 3600000 + m * 60000)))"

definition date_plus :: "instant option \<Rightarrow> int \<Rightarrow> instant option" where
  "date_plus d ms = (case d of None \<Rightarrow> None | Some t \<Rightarrow> time_clip (t + ms))"

text \<open>
  The two dates of a submission:
  \<^verbatim>\<open>startDateTime = new Date(today.getFullYear(), today.getMonth(), today.getDate(),
  parseInt(hours), parseInt(minutes))\<close> and
  \<^verbatim>\<open>endDateTime = new Date(startDateTime.getTime() + duration * 60000)\<close>.
\<close>

definition startDateTime :: "instant \<Rightarrow> string \<Rightarrow> instant option" where
  "startDateTime today st = date_of_clock today (fst (parse_clock st)) (snd (parse_clock st))"

definition endDateTime :: "instant \<Rightarrow> string \<Rightarrow> int \<Rightarrow> instant option" where
  "endDateTime today st d = date_plus (startDateTime today st) (d * 60000)"

section \<open>The handlers\<close>

definition respond :: "nat \<Rightarrow> json_body \<Rightarrow> response" where
  "respond code b = \<lparr>statusCode = code, resp_body = b\<rparr>"

subsection \<open>\<^verbatim>\<open>getRooms\<close>\<close>

definition getRooms :: "faults \<Rightarrow> instant \<Rightarrow> store \<Rightarrow> event \<Rightarrow> response \<times> store" where
  "getRooms f now s ev =
     (if httpMethod ev = ''OPTIONS'' then (respond 200 Empty, s)
      else if httpMethod ev \<noteq> ''GET'' then (respond 405 (Message ''Method not allowed''), s)
      else
        (case select_active_rooms f s of
           Inl e \<Rightarrow> (respond 500 (Failed ''Failed to fetch rooms'' e), s)
         | Inr rms \<Rightarrow>
             (case select_active_bookings f s now of
                Inl e \<Rightarrow> (respond 500 (Failed ''Failed to fetch rooms'' e), s)
              | Inr activeBookings \<Rightarrow>
                  (let occupiedRoomIds = set (map b_room_id activeBookings);
                       roomsWithStatus =
                         map (\<lambda>r. \<lparr>rs_id = r_id r, rs_name = r_name r,
                                   is_available = (r_id r \<notin> occupiedRoomIds)\<rparr>) rms
                   in (respond 200 (RoomsWithStatus roomsWithStatus), s)))))"

subsection \<open>\<^verbatim>\<open>getRoomSchedules\<close>\<close>

text \<open>
  The grouping loop: \<^verbatim>\<open>bookingsByRoom\<close> is an object keyed by room id, and each booking
  is pushed onto the array of its room.
\<close>

definition push_booking :: "booking \<Rightarrow> (int \<rightharpoonup> schedule_entry list) \<Rightarrow> (int \<rightharpoonup> schedule_entry list)" where
  "push_booking b m =
     (let entry = \<lparr>se_student_id = b_student_id b, se_start_time = b_start_time b,
                   se_end_time = b_end_time b\<rparr>
      in case m (b_room_id b) of
           None \<Rightarrow> m(b_room_id b \<mapsto> [entry])
         | Some es \<Rightarrow> m(b_room_id b \<mapsto> es @ [entry]))"

definition group_by_room :: "booking list \<Rightarrow> (int \<rightharpoonup> schedule_entry list)" where
  "group_by_room bs = fold push_booking bs Map.empty"

definition getRoomSchedules :: "faults \<Rightarrow> instant \<Rightarrow> store \<Rightarrow> event \<Rightarrow> response \<times> store" where
  "getRoomSchedules f now s ev =
     (if httpMethod ev = ''OPTIONS'' then (respond 200 Empty, s)
      else if httpMethod ev \<noteq> ''GET'' then (respond 405 (Message ''Method not allowed''), s)
      else
        (let todayStart = local_midnight now + 8 * 3600000;
             todayEnd = local_midnight now + 19 * 3600000
         in case select_active_rooms f s of
              Inl e \<Rightarrow> (respond 500 (Failed ''Failed to fetch room schedules'' e), s)
            | Inr rms \<Rightarrow>
                (case select_bookings_between f s todayStart todayEnd of
                   Inl e \<Rightarrow> (respond 500 (Failed ''Failed to fetch room schedules'' e), s)
                 | Inr bks \<Rightarrow>
                     (let bookingsByRoom = group_by_room bks;
                          roomSchedules =
                            map (\<lambda>r. \<lparr>sch_id = r_id r, sch_name = r_name r,
                                      sch_bookings = (case bookingsByRoom (r_id r) of
                                                        None \<Rightarrow> []
                                                      | Some es \<Rightarrow> es)\<rparr>) rms
                      in (respond 200 (Schedules (day_number now) roomSchedules), s)))))"

subsection \<open>\<^verbatim>\<open>submitBookingRequest\<close>\<close>

text \<open>
  The first check, \<^verbatim>\<open>!student_id || !room_id || !start_time || !duration\<close>: a field is
  falsy when it is absent, the empty string or the number 0.  \<open>required_fields\<close> gives the
  four values when none is falsy.
\<close>

definition required_fields :: "submission \<Rightarrow> (string \<times> int \<times> string \<times> int) option" where
  "required_fields req =
     (case student_id req of
        None \<Rightarrow> None
      | Some sid \<Rightarrow>
     (case room_id req of
        None \<Rightarrow> None
      | Some rid \<Rightarrow>
     (case start_time req of
        None \<Rightarrow> None
      | Some st \<Rightarrow>
     (case duration req of
        None \<Rightarrow> None
      | Some d \<Rightarrow>
          if sid = [] \<or> rid = 0 \<or> st = [] \<or> d = 0 then None
          else Some (sid, rid, st, d)))))"

text \<open>
  The handler from the conflict check on.  \<^verbatim>\<open>toISOString\<close> of an invalid date throws a
  \<^verbatim>\<open>RangeError\<close>, which the handler's \<^verbatim>\<open>catch\<close> turns into the 500 response, as it does
  with the error of a failed query.
\<close>

definition internal_error :: "string \<Rightarrow> response" where
  "internal_error e = respond 500 (Failed ''Failed to submit booking request'' e)"

definition check_and_insert ::
  "faults \<Rightarrow> store \<Rightarrow> string \<Rightarrow> int \<Rightarrow> instant option \<Rightarrow> instant option \<Rightarrow> response \<times> store" where
  "check_and_insert f s sid rid startDate endDate =
     (case endDate of
        None \<Rightarrow> (internal_error ''Invalid time value'', s)
      | Some en \<Rightarrow>
     (case startDate of
        None \<Rightarrow> (internal_error ''Invalid time value'', s)
      | Some st \<Rightarrow>
     (case select_conflicts f s rid st en of
        Inl e \<Rightarrow> (internal_error e, s)
      | Inr conflicts \<Rightarrow>
          if length conflicts > 0
          then (respond 409 (Message ''This room is already booked for the selected time''), s)
          else
     (case select_pending_conflicts f s rid st en of
        Inl e \<Rightarrow> (internal_error e, s)
      | Inr pendingConflicts \<Rightarrow>
     (case insert_request f s sid rid st en ''pending'' of
        Inl e \<Rightarrow> (internal_error e, s)
      | Inr (newRequest, s') \<Rightarrow>
          (respond 200 (Submitted ''Booking request submitted successfully'' (q_id newRequest)),
           s'))))))"

text \<open>
  The handler.  \<open>today\<close> is the clock at \<^verbatim>\<open>const today = new Date()\<close>, \<open>now\<close> the clock
  at the later \<^verbatim>\<open>new Date()\<close> the start is compared with.
\<close>

definition submitBookingRequest ::
  "faults \<Rightarrow> instant \<Rightarrow> instant \<Rightarrow> store \<Rightarrow> event \<Rightarrow> response \<times> store" where
  "submitBookingRequest f today now s ev =
     (if httpMethod ev = ''OPTIONS'' then (respond 200 Empty, s)
      else if httpMethod ev \<noteq> ''POST'' then (respond 405 (Message ''Method not allowed''), s)
      else
     (case body ev of
        Inl e \<Rightarrow> (internal_error e, s)
      | Inr req \<Rightarrow>
     (case required_fields req of
        None \<Rightarrow>
          (respond 400
             (Message ''Missing required fields: student_id, room_id, start_time, duration''), s)
      | Some (sid, rid, st, d) \<Rightarrow>
          if \<not> student_id_ok sid
          then (respond 400 (Message ''Invalid student ID format. Must be 6-7 digits.''), s)
          else if d < 30 \<or> d > 120
          then (respond 400 (Message ''Duration must be between 30 and 120 minutes.''), s)
          else
     (case select_room f s rid of
        None \<Rightarrow> (respond 400 (Message ''Invalid room ID''), s)
      | Some room \<Rightarrow>
          if \<not> r_is_active room
          then (respond 400 (Message ''This room is currently inactive''), s)
          else
            if (case startDateTime today st of None \<Rightarrow> False | Some t \<Rightarrow> t \<le> now)
            then (respond 400 (Message ''Start time must be in the future''), s)
            else check_and_insert f s sid rid (startDateTime today st) (endDateTime today st d)))))"

section \<open>The handler on every JSON body\<close>

text \<open>
  \<^verbatim>\<open>JSON.parse\<close> gives the handler values of any JSON type, and the handler applies its
  tests to them through the conversions of JavaScript.  This section models the handler
  on such bodies.  A number is a finite value or, for a literal too large for a double,
  an infinity.
\<close>

datatype json =
    JNull
  | JBool bool
  | JNum rat
  | JInfinity bool
  | JStr string
  | JArr "json list"
  | JObj "(string \<times> json) list"

text \<open>The value of a numeric conversion; \<open>NaN\<close> is "not a number".\<close>

datatype number = NaN | Finite rat | Infinite bool

text \<open>
  What the handler takes from its host and its store and the repository does not define:
  the text of a number (\<^verbatim>\<open>Number.prototype.toString\<close>), the number of a string
  (applied by \<^verbatim>\<open><\<close>, \<^verbatim>\<open>>\<close> and \<^verbatim>\<open>*\<close>), the integer id that the store reads from the text
  of a filter \<^verbatim>\<open>eq.<text>\<close> (\<open>None\<close> when it reads none and the query fails), and the values
  that the store writes to the columns \<^verbatim>\<open>student_id\<close> and \<^verbatim>\<open>room_id\<close> of an inserted row.
  They are parameters of the model.
\<close>

record host =
  number_text :: "rat \<Rightarrow> string"
  string_number :: "string \<Rightarrow> number"
  filter_id :: "string \<Rightarrow> int option"
  column_text :: "json \<Rightarrow> string"
  column_id :: "json \<Rightarrow> int"

text \<open>\<^verbatim>\<open>!v\<close> is false for the truthy values: all but \<^verbatim>\<open>null\<close>, \<^verbatim>\<open>false\<close>, 0 and the empty
  string.\<close>

fun truthy :: "json \<Rightarrow> bool" where
  "truthy JNull = False"
| "truthy (JBool b) = b"
| "truthy (JNum q) = (q \<noteq> 0)"
| "truthy (JInfinity p) = True"
| "truthy (JStr s) = (s \<noteq> [])"
| "truthy (JArr xs) = True"
| "truthy (JObj kvs) = True"

text \<open>
  The conversion to a string, as the regular expression test and the template of a filter
  apply it.  An array is the texts of its elements joined by commas, with \<^verbatim>\<open>null\<close> as the
  empty text.  An object is \<^verbatim>\<open>[object Object]\<close>, unless it has a key \<^verbatim>\<open>toString\<close>: its value
  is no function, and the conversion throws a \<^verbatim>\<open>TypeError\<close>, which is \<open>None\<close>.
\<close>

fun join_texts :: "string option list \<Rightarrow> string option" where
  "join_texts [] = Some []"
| "join_texts [t] = t"
| "join_texts (t # u # ts) =
     (case t of
        None \<Rightarrow> None
      | Some a \<Rightarrow> (case join_texts (u # ts) of None \<Rightarrow> None | Some b \<Rightarrow> Some (a @ '','' @ b)))"

fun to_string :: "host \<Rightarrow> json \<Rightarrow> string option" where
  "to_string h JNull = Some ''null''"
| "to_string h (JBool b) = Some (if b then ''true'' else ''false'')"
| "to_string h (JNum q) = Some (number_text h q)"
| "to_string h (JInfinity p) = Some (if p then ''Infinity'' else ''-Infinity'')"
| "to_string h (JStr s) = Some s"
| "to_string h (JArr xs) =
     join_texts (map (\<lambda>x. if x = JNull then Some [] else to_string h x) xs)"
| "to_string h (JObj kvs) =
     (if ''toString'' \<in> set (map fst kvs) then None else Some ''[object Object]'')"

text \<open>
  The conversion to a number, as \<^verbatim>\<open>duration < 30\<close>, \<^verbatim>\<open>duration > 120\<close> and
  \<^verbatim>\<open>duration * 60000\<close> apply it: arrays and objects are converted to their string first.
  Every comparison with \<open>NaN\<close> is false.
\<close>

definition to_number :: "host \<Rightarrow> json \<Rightarrow> number option" where
  "to_number h v =
     (case v of
        JNull \<Rightarrow> Some (Finite 0)
      | JBool b \<Rightarrow> Some (Finite (if b then 1 else 0))
      | JNum q \<Rightarrow> Some (Finite q)
      | JInfinity p \<Rightarrow> Some (Infinite p)
      | JStr s \<Rightarrow> Some (string_number h s)
      | _ \<Rightarrow> map_option (string_number h) (to_string h v))"

fun number_less :: "number \<Rightarrow> rat \<Rightarrow> bool" where
  "number_less NaN c = False"
| "number_less (Finite q) c = (q < c)"
| "number_less (Infinite p) c = (\<not> p)"

fun number_greater :: "number \<Rightarrow> rat \<Rightarrow> bool" where
  "number_greater NaN c = False"
| "number_greater (Finite q) c = (q > c)"
| "number_greater (Infinite p) c = p"

text \<open>
  \<^verbatim>\<open>new Date(startDateTime.getTime() + duration * 60000)\<close>: the time value is cut to an
  integer, and is invalid when it is no finite number within the range of dates.
\<close>

definition truncate_toward_zero :: "rat \<Rightarrow> int" where
  "truncate_toward_zero q = (if 0 \<le> q then \<lfloor>q\<rfloor> else \<lceil>q\<rceil>)"

definition date_plus_minutes :: "instant option \<Rightarrow> number \<Rightarrow> instant option" where
  "date_plus_minutes d n =
     (case d of
        None \<Rightarrow> None
      | Some t \<Rightarrow>
          (case n of
             Finite q \<Rightarrow>
               (let v = of_int t + q * 60000
                in if \<bar>v\<bar> \<le> 8640000000000000 then Some (truncate_toward_zero v) else None)
           | _ \<Rightarrow> None))"

text \<open>The parsed body and the event; \<open>None\<close> is a field that is absent.\<close>

record raw_submission =
  raw_student_id :: "json option"
  raw_room_id :: "json option"
  raw_start_time :: "json option"
  raw_duration :: "json option"

record raw_event =
  raw_httpMethod :: string
  raw_body :: "string + raw_submission"

text \<open>The first check: the four values when none of the fields is falsy.\<close>

definition is_falsy :: "json option \<Rightarrow> bool" where
  "is_falsy x = (case x of None \<Rightarrow> True | Some v \<Rightarrow> \<not> truthy v)"

definition truthy_fields :: "raw_submission \<Rightarrow> (json \<times> json \<times> json \<times> json) option" where
  "truthy_fields req =
     (if is_falsy (raw_student_id req) \<or> is_falsy (raw_room_id req)
         \<or> is_falsy (raw_start_time req) \<or> is_falsy (raw_duration req)
      then None
      else
     (case raw_student_id req of
        None \<Rightarrow> None
      | Some sid \<Rightarrow>
     (case raw_room_id req of
        None \<Rightarrow> None
      | Some rid \<Rightarrow>
     (case raw_start_time req of
        None \<Rightarrow> None
      | Some st \<Rightarrow>
     (case raw_duration req of
        None \<Rightarrow> None
      | Some d \<Rightarrow> Some (sid, rid, st, d))))))"

text \<open>The message of the \<^verbatim>\<open>TypeError\<close> of a conversion.\<close>

definition type_error :: string where
  "type_error = ''Cannot convert object to primitive value''"

text \<open>
  The three queries that filter by \<^verbatim>\<open>room_id\<close>: the store reads an id from the text of the
  value, and the query fails when it reads none.
\<close>

definition select_room_by_text :: "host \<Rightarrow> faults \<Rightarrow> store \<Rightarrow> string \<Rightarrow> room option" where
  "select_room_by_text h f s t =
     (case filter_id h t of
        None \<Rightarrow> None
      | Some rid \<Rightarrow> select_room f s rid)"

definition cast_error :: string where
  "cast_error = ''invalid input syntax for type integer''"

definition select_conflicts_by_text ::
  "host \<Rightarrow> faults \<Rightarrow> store \<Rightarrow> string \<Rightarrow> instant \<Rightarrow> instant \<Rightarrow> string + int list" where
  "select_conflicts_by_text h f s t startDate endDate =
     (case filter_id h t of
        None \<Rightarrow> Inl cast_error
      | Some rid \<Rightarrow> select_conflicts f s rid startDate endDate)"

definition select_pending_conflicts_by_text ::
  "host \<Rightarrow> faults \<Rightarrow> store \<Rightarrow> string \<Rightarrow> instant \<Rightarrow> instant \<Rightarrow> string + int list" where
  "select_pending_conflicts_by_text h f s t startDate endDate =
     (case filter_id h t of
        None \<Rightarrow> Inl cast_error
      | Some rid \<Rightarrow> select_pending_conflicts f s rid startDate endDate)"

text \<open>The handler from the conflict check on.\<close>

definition check_and_insert_json ::
  "host \<Rightarrow> faults \<Rightarrow> store \<Rightarrow> json \<Rightarrow> json \<Rightarrow> string \<Rightarrow> instant option \<Rightarrow> instant option
     \<Rightarrow> response \<times> store" where
  "check_and_insert_json h f s sid rid rid_text startDate endDate =
     (case endDate of
        None \<Rightarrow> (internal_error ''Invalid time value'', s)
      | Some en \<Rightarrow>
     (case startDate of
        None \<Rightarrow> (internal_error ''Invalid time value'', s)
      | Some st \<Rightarrow>
     (case select_conflicts_by_text h f s rid_text st en of
        Inl e \<Rightarrow> (internal_error e, s)
      | Inr conflicts \<Rightarrow>
          if length conflicts > 0
          then (respond 409 (Message ''This room is already booked for the selected time''), s)
          else
     (case select_pending_conflicts_by_text h f s rid_text st en of
        Inl e \<Rightarrow> (internal_error e, s)
      | Inr pendingConflicts \<Rightarrow>
     (case insert_request f s (column_text h sid) (column_id h rid) st en ''pending'' of
        Inl e \<Rightarrow> (internal_error e, s)
      | Inr (newRequest, s') \<Rightarrow>
          (respond 200 (Submitted ''Booking request submitted successfully'' (q_id newRequest)),
           s'))))))"

text \<open>
  The handler.  \<^verbatim>\<open>start_time.split(':')\<close> throws a \<^verbatim>\<open>TypeError\<close> on every value that is not
  a string.
\<close>

definition submitBookingRequest_json ::
  "host \<Rightarrow> faults \<Rightarrow> instant \<Rightarrow> instant \<Rightarrow> store \<Rightarrow> raw_event \<Rightarrow> response \<times> store" where
  "submitBookingRequest_json h f today now s ev =
     (if raw_httpMethod ev = ''OPTIONS'' then (respond 200 Empty, s)
      else if raw_httpMethod ev \<noteq> ''POST''
      then (respond 405 (Message ''Method not allowed''), s)
      else
     (case raw_body ev of
        Inl e \<Rightarrow> (internal_error e, s)
      | Inr req \<Rightarrow>
     (case truthy_fields req of
        None \<Rightarrow>
          (respond 400
             (Message ''Missing required fields: student_id, room_id, start_time, duration''), s)
      | Some (sid, rid, st, d) \<Rightarrow>
     (case to_string h sid of
        None \<Rightarrow> (internal_error type_error, s)
      | Some sid_text \<Rightarrow>
          if \<not> student_id_ok sid_text
          then (respond 400 (Message ''Invalid student ID format. Must be 6-7 digits.''), s)
          else
     (case to_number h d of
        None \<Rightarrow> (internal_error type_error, s)
      | Some minutes \<Rightarrow>
          if number_less minutes 30 \<or> number_greater minutes 120
          then (respond 400 (Message ''Duration must be between 30 and 120 minutes.''), s)
          else
     (case to_string h rid of
        None \<Rightarrow> (internal_error type_error, s)
      | Some rid_text \<Rightarrow>
     (case select_room_by_text h f s rid_text of
        None \<Rightarrow> (respond 400 (Message ''Invalid room ID''), s)
      | Some room \<Rightarrow>
          if \<not> r_is_active room
          then (respond 400 (Message ''This room is currently inactive''), s)
          else
     (case st of
        JStr clock \<Rightarrow>
          if (case startDateTime today clock of None \<Rightarrow> False | Some t \<Rightarrow> t \<le> now)
          then (respond 400 (Message ''Start time must be in the future''), s)
          else check_and_insert_json h f s sid rid rid_text (startDateTime today clock)
                 (date_plus_minutes (startDateTime today clock) minutes)
      | _ \<Rightarrow> (internal_error ''start_time.split is not a function'', s)))))))))"

text \<open>
  The bodies of the client as JSON bodies, and the hosts that read them as the typed model
  does: on these, the two models of the handler agree (lemma
  \<open>submitBookingRequest_json_typed\<close>).
\<close>

definition json_of_submission :: "submission \<Rightarrow> raw_submission" where
  "json_of_submission req =
     \<lparr>raw_student_id = map_option JStr (student_id req),
      raw_room_id = map_option (\<lambda>n. JNum (of_int n)) (room_id req),
      raw_start_time = map_option JStr (start_time req),
      raw_duration = map_option (\<lambda>n. JNum (of_int n)) (duration req)\<rparr>"

definition json_of_event :: "event \<Rightarrow> raw_event" where
  "json_of_event ev =
     \<lparr>raw_httpMethod = httpMethod ev,
      raw_body = (case body ev of Inl e \<Rightarrow> Inl e | Inr req \<Rightarrow> Inr (json_of_submission req))\<rparr>"

definition reads_typed :: "host \<Rightarrow> bool" where
  "reads_typed h =
     ((\<forall>n. filter_id h (number_text h (of_int n)) = Some n)
      \<and> (\<forall>t. column_text h (JStr t) = t)
      \<and> (\<forall>n. column_id h (JNum (of_int n)) = n))"

section \<open>The notions of the specification\<close>

text \<open>Two half-open intervals \<open>[s1, e1)\<close> and \<open>[s2, e2)\<close> overlap.\<close>

definition overlap :: "instant \<Rightarrow> instant \<Rightarrow> instant \<Rightarrow> instant \<Rightarrow> bool" where
  "overlap s1 e1 s2 e2 = (s1 < e2 \<and> s2 < e1)"

text \<open>The calendar date of an instant is the current one.\<close>

definition same_calendar_date :: "instant \<Rightarrow> instant \<Rightarrow> bool" where
  "same_calendar_date t today = (day_number t = day_number today)"

text \<open>The clock reading of an instant: \<^verbatim>\<open>getHours()\<close> and \<^verbatim>\<open>getMinutes()\<close>.\<close>

definition getHours :: "instant \<Rightarrow> int" where
  "getHours t = (t mod msPerDay) div 3600000"

definition getMinutes :: "instant \<Rightarrow> int" where
  "getMinutes t = (t mod 3600000) div 60000"

text \<open>The rejection reasons of a submission, and the response of each.\<close>

datatype reason =
    MissingFields
  | InvalidStudentId
  | InvalidDuration
  | InvalidRoom
  | InactiveRoom
  | StartTimeInPast
  | RoomAlreadyBooked

fun rejection :: "reason \<Rightarrow> response" where
  "rejection MissingFields =
     respond 400 (Message ''Missing required fields: student_id, room_id, start_time, duration'')"
| "rejection InvalidStudentId =
     respond 400 (Message ''Invalid student ID format. Must be 6-7 digits.'')"
| "rejection InvalidDuration =
     respond 400 (Message ''Duration must be between 30 and 120 minutes.'')"
| "rejection InvalidRoom = respond 400 (Message ''Invalid room ID'')"
| "rejection InactiveRoom = respond 400 (Message ''This room is currently inactive'')"
| "rejection StartTimeInPast = respond 400 (Message ''Start time must be in the future'')"
| "rejection RoomAlreadyBooked =
     respond 409 (Message ''This room is already booked for the selected time'')"

definition booked :: "store \<Rightarrow> int \<Rightarrow> instant \<Rightarrow> instant \<Rightarrow> bool" where
  "booked s rid start en =
     (\<exists>b \<in> set (bookings s). b_room_id b = rid \<and> b_start_time b < en \<and> b_end_time b > start)"

definition rule_order :: "reason list" where
  "rule_order = [MissingFields, InvalidStudentId, InvalidDuration, InvalidRoom, InactiveRoom,
                 StartTimeInPast, RoomAlreadyBooked]"

text \<open>
  The validation rules on a JSON body, in the words of the specification.  The student id
  rule is about the text of the value, the duration rule about its number (a value that is
  no number is not in the range), the room rules about the room whose id the store reads
  from the value.  A rule whose value cannot be converted does not fail: the handler then
  answers 500.  What makes an input missing is a parameter: \<open>some_absent_json\<close> reads
  "all four inputs present" as "supplied in the body", \<open>some_falsy_json\<close> as "supplied
  and not falsy".
\<close>

definition some_absent_json :: "raw_submission \<Rightarrow> bool" where
  "some_absent_json req =
     (raw_student_id req = None \<or> raw_room_id req = None \<or> raw_start_time req = None
      \<or> raw_duration req = None)"

definition some_falsy_json :: "raw_submission \<Rightarrow> bool" where
  "some_falsy_json req =
     (is_falsy (raw_student_id req) \<or> is_falsy (raw_room_id req)
      \<or> is_falsy (raw_start_time req) \<or> is_falsy (raw_duration req))"

definition in_range :: "number \<Rightarrow> bool" where
  "in_range n = (case n of Finite q \<Rightarrow> 30 \<le> q \<and> q \<le> 120 | _ \<Rightarrow> False)"

definition room_key :: "host \<Rightarrow> json \<Rightarrow> int option" where
  "room_key h v = (case to_string h v of None \<Rightarrow> None | Some t \<Rightarrow> filter_id h t)"

definition start_clock :: "raw_submission \<Rightarrow> string option" where
  "start_clock req = (case raw_start_time req of Some (JStr clock) \<Rightarrow> Some clock | _ \<Rightarrow> None)"

text \<open>
  The duration of the body, where supplied and converted, is a number; and every value of
  the body can be converted as the handler needs it.
\<close>

definition numeric_duration :: "host \<Rightarrow> raw_submission \<Rightarrow> bool" where
  "numeric_duration h req =
     (case raw_duration req of None \<Rightarrow> True | Some v \<Rightarrow> to_number h v \<noteq> Some NaN)"

definition converts :: "host \<Rightarrow> raw_submission \<Rightarrow> bool" where
  "converts h req =
     ((case raw_student_id req of None \<Rightarrow> True | Some v \<Rightarrow> to_string h v \<noteq> None)
      \<and> (case raw_duration req of None \<Rightarrow> True | Some v \<Rightarrow> to_number h v \<noteq> None)
      \<and> (case raw_room_id req of None \<Rightarrow> True | Some v \<Rightarrow> to_string h v \<noteq> None)
      \<and> (case raw_start_time req of None \<Rightarrow> True | Some v \<Rightarrow> start_clock req \<noteq> None))"

fun rule_fails_json ::
  "(raw_submission \<Rightarrow> bool) \<Rightarrow> host \<Rightarrow> store \<Rightarrow> instant \<Rightarrow> instant \<Rightarrow> raw_submission \<Rightarrow> reason
     \<Rightarrow> bool" where
  "rule_fails_json missing h s today now req MissingFields = missing req"
| "rule_fails_json missing h s today now req InvalidStudentId =
     (case raw_student_id req of
        None \<Rightarrow> True
      | Some v \<Rightarrow> (case to_string h v of None \<Rightarrow> False | Some t \<Rightarrow> \<not> student_id_ok t))"
| "rule_fails_json missing h s today now req InvalidDuration =
     (case raw_duration req of
        None \<Rightarrow> True
      | Some v \<Rightarrow> (case to_number h v of None \<Rightarrow> False | Some n \<Rightarrow> \<not> in_range n))"
| "rule_fails_json missing h s today now req InvalidRoom =
     (case raw_room_id req of
        None \<Rightarrow> True
      | Some v \<Rightarrow>
          (case to_string h v of
             None \<Rightarrow> False
           | Some t \<Rightarrow>
               (case filter_id h t of
                  None \<Rightarrow> True
                | Some k \<Rightarrow> k \<notin> set (map r_id (rooms s)))))"
| "rule_fails_json missing h s today now req InactiveRoom =
     (case raw_room_id req of
        None \<Rightarrow> True
      | Some v \<Rightarrow>
          (case room_key h v of
             None \<Rightarrow> False
           | Some k \<Rightarrow> (\<exists>r \<in> set (rooms s). r_id r = k \<and> \<not> r_is_active r)))"
| "rule_fails_json missing h s today now req StartTimeInPast =
     (case start_clock req of
        None \<Rightarrow> False
      | Some clock \<Rightarrow> (case startDateTime today clock of None \<Rightarrow> False | Some t \<Rightarrow> t \<le> now))"
| "rule_fails_json missing h s today now req RoomAlreadyBooked =
     (case raw_room_id req of
        None \<Rightarrow> False
      | Some rid \<Rightarrow>
     (case room_key h rid of
        None \<Rightarrow> False
      | Some k \<Rightarrow>
     (case start_clock req of
        None \<Rightarrow> False
      | Some clock \<Rightarrow>
     (case raw_duration req of
        None \<Rightarrow> False
      | Some d \<Rightarrow>
     (case to_number h d of
        None \<Rightarrow> False
      | Some minutes \<Rightarrow>
     (case startDateTime today clock of
        None \<Rightarrow> False
      | Some start \<Rightarrow>
     (case date_plus_minutes (Some start) minutes of
        None \<Rightarrow> False
      | Some en \<Rightarrow> booked s k start en)))))))"

definition first_failing_rule_json ::
  "(raw_submission \<Rightarrow> bool) \<Rightarrow> host \<Rightarrow> store \<Rightarrow> instant \<Rightarrow> instant \<Rightarrow> raw_submission
     \<Rightarrow> reason option" where
  "first_failing_rule_json missing h s today now req =
     find (rule_fails_json missing h s today now req) rule_order"

text \<open>The outcome of a submission: its response without the number of the new request.\<close>

definition outcome :: "response \<Rightarrow> nat \<times> json_body" where
  "outcome r = (statusCode r, (case resp_body r of Submitted m i \<Rightarrow> Message m | b \<Rightarrow> b))"

text \<open>
  The schedule view with the student identifiers blanked, and bookings that agree in
  every column but \<^verbatim>\<open>student_id\<close>.
\<close>

definition blank_entry :: "schedule_entry \<Rightarrow> schedule_entry" where
  "blank_entry e = e\<lparr>se_student_id := []\<rparr>"

definition blank_student_ids :: "response \<Rightarrow> response" where
  "blank_student_ids r =
     (case resp_body r of
        Schedules d rs \<Rightarrow>
          r\<lparr>resp_body := Schedules d
               (map (\<lambda>x. x\<lparr>sch_bookings := map blank_entry (sch_bookings x)\<rparr>) rs)\<rparr>
      | _ \<Rightarrow> r)"

definition forget_student :: "booking \<Rightarrow> booking" where
  "forget_student b = b\<lparr>b_student_id := []\<rparr>"

definition schedule_entry_of :: "booking \<Rightarrow> schedule_entry" where
  "schedule_entry_of b =
     \<lparr>se_student_id = b_student_id b, se_start_time = b_start_time b, se_end_time = b_end_time b\<rparr>"

section \<open>An example store\<close>

text \<open>
  Two rooms, one of them inactive, and one confirmed booking of room 1 from 09:00 to 10:00
  on 3 November 2026, whose midnight is the instant 1793664000000.
\<close>

definition at_clock :: "int \<Rightarrow> int \<Rightarrow> instant" where
  "at_clock h m = 1793664000000 + h * 3600000 + m * 60000"

definition example_store :: store where
  "example_store =
     \<lparr>rooms = [\<lparr>r_id = 2, r_name = ''Room B'', r_access_group = ''staff'', r_is_active = False\<rparr>,
               \<lparr>r_id = 1, r_name = ''Room A'', r_access_group = ''all'', r_is_active = True\<rparr>],
      bookings = [\<lparr>b_id = 1, b_room_id = 1, b_student_id = ''654321'',
                   b_start_time = at_clock 9 0, b_end_time = at_clock 10 0\<rparr>],
      booking_requests = [],
      next_request_id = 1\<rparr>"

definition post :: "string \<Rightarrow> int \<Rightarrow> string \<Rightarrow> int \<Rightarrow> event" where
  "post sid rid st d =
     \<lparr>httpMethod = ''POST'',
      body = Inr \<lparr>student_id = Some sid, room_id = Some rid, start_time = Some st,
                 duration = Some d\<rparr>\<rparr>"

definition get_event :: event where
  "get_event = \<lparr>httpMethod = ''GET'', body = Inl ''Unexpected end of JSON input''\<rparr>"

text \<open>
  An example host, for requests whose numbers are whole: it prints a whole number in
  decimal (and a fraction as a lone point, which none of its readers reads), reads the
  empty string as 0, a string of decimal digits as that number and any other string as no
  number, and writes strings and whole numbers to the columns as they are.
\<close>

function decimal_text :: "nat \<Rightarrow> string" where
  "decimal_text n =
     (if n < 10 then [char_of (48 + n)]
      else decimal_text (n div 10) @ [char_of (48 + n mod 10)])"
  by pat_completeness auto
termination
  by (relation "measure id") auto

definition whole_number_text :: "rat \<Rightarrow> string" where
  "whole_number_text q =
     (if q \<noteq> of_int \<lfloor>q\<rfloor> then ''.''
      else if q < 0 then ''-'' @ decimal_text (nat (- \<lfloor>q\<rfloor>))
      else decimal_text (nat \<lfloor>q\<rfloor>))"

definition decimal_value :: "string \<Rightarrow> nat option" where
  "decimal_value t = (if t \<noteq> [] \<and> list_all is_digit t then Some (radix_value 10 t) else None)"

definition example_host :: host where
  "example_host =
     \<lparr>number_text = whole_number_text,
      string_number =
        (\<lambda>t. if t = [] then Finite 0
             else (case decimal_value t of None \<Rightarrow> NaN | Some n \<Rightarrow> Finite (of_nat n))),
      filter_id = (\<lambda>t. map_option int (decimal_value t)),
      column_text = (\<lambda>v. case v of JStr t \<Rightarrow> t | _ \<Rightarrow> []),
      column_id = (\<lambda>v. case v of JNum q \<Rightarrow> \<lfloor>q\<rfloor> | _ \<Rightarrow> 0)\<rparr>"

definition post_json :: "json \<Rightarrow> json \<Rightarrow> json \<Rightarrow> json \<Rightarrow> raw_event" where
  "post_json sid rid st d =
     \<lparr>raw_httpMethod = ''POST'',
      raw_body = Inr \<lparr>raw_student_id = Some sid, raw_room_id = Some rid, raw_start_time = Some st,
                     raw_duration = Some d\<rparr>\<rparr>"

section \<open>Auxiliary facts about the handlers\<close>

lemma select_room_unique:
  assumes "roomsError f = None" "distinct (map r_id (rooms s))"
  shows "select_room f s rid = Some r \<longleftrightarrow> (r \<in> set (rooms s) \<and> r_id r = rid)"
proof -
  have *: "distinct (map r_id xs) \<Longrightarrow>
        (case filter (\<lambda>r. r_id r = rid) xs of [r] \<Rightarrow> Some r | _ \<Rightarrow> None) = Some r
        \<longleftrightarrow> (r \<in> set xs \<and> r_id r = rid)" for xs
  proof (induction xs)
    case Nil
    then show ?case by simp
  next
    case (Cons a xs)
    show ?case
    proof (cases "r_id a = rid")
      case True
      with Cons.prems have "rid \<notin> set (map r_id xs)"
        by simp
      then have other: "\<forall>x \<in> set xs. r_id x \<noteq> rid"
        by auto
      then have "filter (\<lambda>r. r_id r = rid) xs = []"
        by (auto simp: filter_empty_conv)
      with True other show ?thesis by auto
    next
      case False
      with Cons show ?thesis by auto
    qed
  qed
  show ?thesis using assms * by (simp add: select_room_def)
qed

lemma select_room_none:
  assumes "roomsError f = None" "distinct (map r_id (rooms s))"
  shows "select_room f s rid = None \<longleftrightarrow> rid \<notin> set (map r_id (rooms s))"
proof -
  have "select_room f s rid = None \<longleftrightarrow> (\<forall>r. select_room f s rid \<noteq> Some r)"
    by (cases "select_room f s rid") auto
  also have "\<dots> \<longleftrightarrow> rid \<notin> set (map r_id (rooms s))"
    using select_room_unique [OF assms] by auto
  finally show ?thesis .
qed

lemma submit_validated:
  assumes "httpMethod ev = ''POST''" "body ev = Inr req"
    and "required_fields req = Some (sid, rid, st, d)"
    and "student_id_ok sid" "30 \<le> d" "d \<le> 120"
    and "select_room f s rid = Some room" "r_is_active room"
  shows "submitBookingRequest f today now s ev =
     (if (case startDateTime today st of None \<Rightarrow> False | Some t \<Rightarrow> t \<le> now)
      then (rejection StartTimeInPast, s)
      else check_and_insert f s sid rid (startDateTime today st) (endDateTime today st d))"
  using assms by (simp add: submitBookingRequest_def)

lemma check_and_insert_conflict:
  assumes "bookingsError f = None"
  shows "check_and_insert f s sid rid (Some start) (Some en) =
     (if booked s rid start en then (rejection RoomAlreadyBooked, s)
      else (case select_pending_conflicts f s rid start en of
              Inl e \<Rightarrow> (internal_error e, s)
            | Inr pendingConflicts \<Rightarrow>
                (case insert_request f s sid rid start en ''pending'' of
                   Inl e \<Rightarrow> (internal_error e, s)
                 | Inr (newRequest, s') \<Rightarrow>
                     (respond 200 (Submitted ''Booking request submitted successfully''
                        (q_id newRequest)), s'))))"
  using assms
  by (auto simp: check_and_insert_def select_conflicts_def booked_def filter_empty_conv)

lemma check_and_insert_accept:
  assumes "bookingsError f = None" "pendingError f = None" "insertError f = None"
    and "\<not> booked s rid start en"
  shows "check_and_insert f s sid rid (Some start) (Some en) =
     (respond 200 (Submitted ''Booking request submitted successfully'' (next_request_id s)),
      s\<lparr>booking_requests := booking_requests s @
           [\<lparr>q_id = next_request_id s, q_student_id = sid, q_room_id = rid,
             q_start_time = start, q_end_time = en, q_status = ''pending''\<rparr>],
        next_request_id := next_request_id s + 1\<rparr>)"
  using assms
  by (simp add: check_and_insert_conflict select_pending_conflicts_def insert_request_def Let_def)

lemma check_and_insert_cases:
  "fst (check_and_insert f s sid rid a b) = rejection RoomAlreadyBooked
   \<or> (\<exists>e. fst (check_and_insert f s sid rid a b) = internal_error e)
   \<or> (\<exists>i. fst (check_and_insert f s sid rid a b) =
          respond 200 (Submitted ''Booking request submitted successfully'' i))"
  by (auto simp: check_and_insert_def split: option.splits sum.splits)

lemma check_and_insert_not_400:
  "statusCode (fst (check_and_insert f s sid rid a b)) \<noteq> 400"
  using check_and_insert_cases [of f s sid rid a b]
  by (auto simp: internal_error_def respond_def)

lemma clock_of_instant:
  "local_midnight t + getHours t * 3600000 + getMinutes t * 60000 = t - t mod 60000"
proof -
  let ?x = "t mod 86400000"
  have h: "getHours t * 3600000 = ?x - ?x mod 3600000"
    by (simp add: getHours_def msPerDay_def minus_mod_eq_div_mult)
  have x: "?x mod 3600000 = t mod 3600000"
    by (simp add: mod_mod_cancel)
  have m: "getMinutes t * 60000 = t mod 3600000 - (t mod 3600000) mod 60000"
    by (simp add: getMinutes_def minus_mod_eq_div_mult)
  have y: "(t mod 3600000) mod 60000 = t mod 60000"
    by (simp add: mod_mod_cancel)
  show ?thesis
    unfolding h m x y local_midnight_def msPerDay_def by simp
qed

lemma day_of_clock:
  assumes "0 \<le> k" "k < msPerDay"
  shows "day_number (local_midnight t + k) = day_number t"
proof -
  have "local_midnight t = msPerDay * (t div msPerDay)"
    by (simp add: local_midnight_def minus_mod_eq_mult_div)
  then have "(local_midnight t + k) div msPerDay = t div msPerDay"
    using assms by (simp add: msPerDay_def)
  then show ?thesis by (simp add: day_number_def)
qed

lemma startDateTime_Some:
  assumes "startDateTime today st = Some start"
  shows "\<exists>h m. parse_clock st = (Some h, Some m) \<and>
           start = local_midnight today + h * 3600000 + m * 60000"
  using assms
  by (cases "parse_clock st")
     (auto simp: startDateTime_def date_of_clock_def time_clip_def
           split: option.splits if_splits)

lemma endDateTime_Some:
  assumes "startDateTime today st = Some start" "endDateTime today st d = Some en"
  shows "en = start + d * 60000"
  using assms
  by (auto simp: endDateTime_def date_plus_def time_clip_def split: if_splits)

lemma within_first_day:
  assumes "0 \<le> k"
  shows "k div msPerDay = 0 \<longleftrightarrow> k < msPerDay"
  using assms by (auto simp: msPerDay_def zdiv_eq_0_iff)

lemma check_and_insert_row:
  "(snd (check_and_insert f s sid rid a b) = s
      \<and> statusCode (fst (check_and_insert f s sid rid a b)) \<noteq> 200)
   \<or> (statusCode (fst (check_and_insert f s sid rid a b)) = 200
      \<and> (\<exists>st en. a = Some st \<and> b = Some en \<and>
            snd (check_and_insert f s sid rid a b) =
              s\<lparr>booking_requests := booking_requests s @
                   [\<lparr>q_id = next_request_id s, q_student_id = sid, q_room_id = rid,
                     q_start_time = st, q_end_time = en, q_status = ''pending''\<rparr>],
                next_request_id := next_request_id s + 1\<rparr>))"
  by (auto simp: check_and_insert_def insert_request_def internal_error_def respond_def Let_def
           split: option.splits sum.splits)

lemma check_and_insert_effect:
  "(snd (check_and_insert f s sid rid a b) = s
      \<and> statusCode (fst (check_and_insert f s sid rid a b)) \<noteq> 200)
   \<or> (statusCode (fst (check_and_insert f s sid rid a b)) = 200
      \<and> (\<exists>q. q_status q = ''pending'' \<and> q_id q = next_request_id s \<and>
            snd (check_and_insert f s sid rid a b) =
              s\<lparr>booking_requests := booking_requests s @ [q],
                next_request_id := next_request_id s + 1\<rparr>))"
proof -
  let ?C = "check_and_insert f s sid rid a b"
  from check_and_insert_row [of f s sid rid a b]
  consider "snd ?C = s \<and> statusCode (fst ?C) \<noteq> 200"
    | st en where "statusCode (fst ?C) = 200"
        "snd ?C = s\<lparr>booking_requests := booking_requests s @
                   [\<lparr>q_id = next_request_id s, q_student_id = sid, q_room_id = rid,
                     q_start_time = st, q_end_time = en, q_status = ''pending''\<rparr>],
                next_request_id := next_request_id s + 1\<rparr>"
    by blast
  then show ?thesis
  proof cases
    case 1
    then show ?thesis by simp
  next
    case 2
    let ?q = "\<lparr>q_id = next_request_id s, q_student_id = sid, q_room_id = rid,
                q_start_time = st, q_end_time = en, q_status = ''pending''\<rparr>"
    have "q_status ?q = ''pending'' \<and> q_id ?q = next_request_id s \<and>
        snd ?C = s\<lparr>booking_requests := booking_requests s @ [?q],
                    next_request_id := next_request_id s + 1\<rparr>"
      using 2(2) by simp
    then have "\<exists>q. q_status q = ''pending'' \<and> q_id q = next_request_id s \<and>
        snd ?C = s\<lparr>booking_requests := booking_requests s @ [q],
                    next_request_id := next_request_id s + 1\<rparr>"
      by (rule exI)
    with 2(1) show ?thesis by simp
  qed
qed

lemma submit_effect:
  "(snd (submitBookingRequest f today now s ev) = s
      \<and> (statusCode (fst (submitBookingRequest f today now s ev)) \<noteq> 200
          \<or> httpMethod ev = ''OPTIONS''))
   \<or> (statusCode (fst (submitBookingRequest f today now s ev)) = 200
      \<and> httpMethod ev \<noteq> ''OPTIONS''
      \<and> (\<exists>q. q_status q = ''pending'' \<and> q_id q = next_request_id s \<and>
            snd (submitBookingRequest f today now s ev) =
              s\<lparr>booking_requests := booking_requests s @ [q],
                next_request_id := next_request_id s + 1\<rparr>))"
  using check_and_insert_effect
  by (auto simp: submitBookingRequest_def internal_error_def respond_def
           split: option.splits sum.splits prod.splits)

lemma check_and_insert_store_independent:
  assumes "bookings s = bookings s'"
  shows "outcome (fst (check_and_insert f s sid rid a b))
           = outcome (fst (check_and_insert f s' sid rid a b))
       \<and> (next_request_id s = next_request_id s' \<longrightarrow>
            fst (check_and_insert f s sid rid a b) = fst (check_and_insert f s' sid rid a b))"
  using assms
  by (auto simp: check_and_insert_def select_conflicts_def select_pending_conflicts_def
        insert_request_def outcome_def respond_def internal_error_def Let_def
      split: option.splits sum.splits)

lemma rejection_inj:
  "rejection r = rejection r' \<longleftrightarrow> r = r'"
  by (cases r; cases r') (simp_all add: respond_def)

lemma rejection_not_internal:
  "internal_error e \<noteq> rejection r"
  by (cases r) (simp_all add: internal_error_def respond_def)

lemma rejection_not_submitted:
  "respond 200 b \<noteq> rejection r"
  by (cases r) (simp_all add: respond_def)

lemma check_and_insert_rejection:
  assumes "bookingsError f = None"
  shows "fst (check_and_insert f s sid rid a b) = rejection r \<longleftrightarrow>
     (r = RoomAlreadyBooked \<and> (\<exists>st en. a = Some st \<and> b = Some en \<and> booked s rid st en))"
proof (cases a)
  case None
  then show ?thesis
    by (cases b) (simp_all add: check_and_insert_def rejection_not_internal)
next
  case a: (Some st)
  show ?thesis
  proof (cases b)
    case None
    then show ?thesis by (simp add: check_and_insert_def rejection_not_internal)
  next
    case b: (Some en)
    show ?thesis
    proof (cases "booked s rid st en")
      case True
      then show ?thesis
        using a b assms rejection_inj [of RoomAlreadyBooked r]
        by (auto simp: check_and_insert_conflict)
    next
      case False
      then show ?thesis
        using a b assms
        by (auto simp: check_and_insert_conflict rejection_not_internal rejection_not_submitted
                 split: sum.splits prod.splits)
    qed
  qed
qed

lemma date_plus_minutes_int:
  "date_plus_minutes d (Finite (of_int k)) = date_plus d (k * 60000)"
proof (cases d)
  case None
  then show ?thesis by (simp add: date_plus_minutes_def date_plus_def)
next
  case (Some t)
  have v: "(of_int t + of_int k * 60000 :: rat) = of_int (t + k * 60000)"
    by simp
  have a: "\<bar>of_int (t + k * 60000) :: rat\<bar> \<le> 8640000000000000
      \<longleftrightarrow> \<bar>t + k * 60000\<bar> \<le> 8640000000000000"
  proof -
    have "\<bar>of_int (t + k * 60000) :: rat\<bar> = of_int \<bar>t + k * 60000\<bar>"
      by simp
    moreover have "(of_int \<bar>t + k * 60000\<bar> :: rat) \<le> of_int 8640000000000000
        \<longleftrightarrow> \<bar>t + k * 60000\<bar> \<le> 8640000000000000"
      by (rule of_int_le_iff)
    ultimately show ?thesis by simp
  qed
  have "truncate_toward_zero (of_int n) = n" for n
    by (simp add: truncate_toward_zero_def)
  then have b: "truncate_toward_zero (of_int (t + k * 60000)) = t + k * 60000" .
  show ?thesis
    unfolding Some date_plus_minutes_def date_plus_def time_clip_def
    by (simp only: option.case number.case v Let_def a b)
qed

lemma truthy_fields_typed:
  "truthy_fields (json_of_submission req) =
     map_option (\<lambda>(sid, rid, st, d). (JStr sid, JNum (of_int rid), JStr st, JNum (of_int d)))
       (required_fields req)"
  by (cases "student_id req"; cases "room_id req"; cases "start_time req"; cases "duration req")
     (auto simp: truthy_fields_def json_of_submission_def required_fields_def is_falsy_def)

lemma check_and_insert_json_typed:
  assumes "reads_typed h"
  shows "check_and_insert_json h f s (JStr sid) (JNum (of_int rid)) (number_text h (of_int rid)) a b
           = check_and_insert f s sid rid a b"
proof -
  from assms have k: "filter_id h (number_text h (of_int rid)) = Some rid"
    and t: "column_text h (JStr sid) = sid" and i: "column_id h (JNum (of_int rid)) = rid"
    by (simp_all add: reads_typed_def)
  have c: "select_conflicts_by_text h f s (number_text h (of_int rid)) x y
             = select_conflicts f s rid x y" for x y
    by (simp add: select_conflicts_by_text_def k)
  have p: "select_pending_conflicts_by_text h f s (number_text h (of_int rid)) x y
             = select_pending_conflicts f s rid x y" for x y
    by (simp add: select_pending_conflicts_by_text_def k)
  show ?thesis
    unfolding check_and_insert_json_def check_and_insert_def c p t i
    by (rule refl)
qed

lemma submitBookingRequest_json_typed:
  assumes "reads_typed h"
  shows "submitBookingRequest_json h f today now s (json_of_event ev) = submitBookingRequest f today now s ev"
proof (cases "body ev")
  case (Inl e)
  then show ?thesis
    by (simp add: submitBookingRequest_json_def submitBookingRequest_def json_of_event_def)
next
  case (Inr req)
  show ?thesis
  proof (cases "required_fields req")
    case None
    then show ?thesis
      using Inr
      by (simp add: submitBookingRequest_json_def submitBookingRequest_def json_of_event_def truthy_fields_typed)
  next
    case (Some t)
    obtain sid rid st d where t: "t = (sid, rid, st, d)"
      by (cases t) auto
    have k: "filter_id h (number_text h (of_int rid)) = Some rid"
      using assms by (simp add: reads_typed_def)
    have less: "number_less (Finite (of_int d)) 30 \<longleftrightarrow> d < 30"
      and greater: "number_greater (Finite (of_int d)) 120 \<longleftrightarrow> d > 120"
      by simp_all
    show ?thesis
      using Inr Some t k less greater check_and_insert_json_typed [OF assms]
      by (simp add: submitBookingRequest_json_def submitBookingRequest_def json_of_event_def
            truthy_fields_typed to_number_def select_room_by_text_def endDateTime_def
            date_plus_minutes_int
          split: option.splits)
  qed
qed

lemma truthy_fields_None:
  "truthy_fields req = None \<longleftrightarrow> some_falsy_json req"
  by (auto simp: truthy_fields_def some_falsy_json_def is_falsy_def split: option.splits)

lemma truthy_fields_Some:
  assumes "truthy_fields req = Some (sid, rid, st, d)"
  shows "raw_student_id req = Some sid \<and> raw_room_id req = Some rid
         \<and> raw_start_time req = Some st \<and> raw_duration req = Some d"
  using assms by (auto simp: truthy_fields_def split: option.splits if_splits)

lemma check_and_insert_json_response:
  assumes "filter_id h t = Some k"
  shows "fst (check_and_insert_json h f s sid rid t a b)
           = fst (check_and_insert f s (column_text h sid) k a b)"
proof -
  have c: "select_conflicts_by_text h f s t x y = select_conflicts f s k x y" for x y
    by (simp add: select_conflicts_by_text_def assms)
  have p: "select_pending_conflicts_by_text h f s t x y = select_pending_conflicts f s k x y"
    for x y
    by (simp add: select_pending_conflicts_by_text_def assms)
  show ?thesis
    unfolding check_and_insert_json_def check_and_insert_def c p
    by (auto simp: insert_request_def Let_def split: option.splits sum.splits)
qed

lemma in_range_iff:
  "n \<noteq> NaN \<Longrightarrow> in_range n \<longleftrightarrow> \<not> (number_less n 30 \<or> number_greater n 120)"
  by (cases n) (auto simp: in_range_def)

lemma getRooms_get:
  assumes "httpMethod ev = ''GET''" "roomsError f = None" "bookingsError f = None"
  shows "getRooms f now s ev =
     (respond 200 (RoomsWithStatus
        (map (\<lambda>r. \<lparr>rs_id = r_id r, rs_name = r_name r,
                   is_available = (r_id r \<notin> set (map b_room_id
                      (filter (\<lambda>b. b_end_time b \<ge> now \<and> b_start_time b \<le> now) (bookings s))))\<rparr>)
           (sort_key r_id (filter r_is_active (rooms s))))), s)"
  using assms
  by (simp add: getRooms_def select_active_rooms_def select_active_bookings_def)

lemma push_booking_lookup:
  "(case push_booking b m k of None \<Rightarrow> [] | Some es \<Rightarrow> es)
     = (case m k of None \<Rightarrow> [] | Some es \<Rightarrow> es)
         @ (if b_room_id b = k then [schedule_entry_of b] else [])"
  by (simp add: push_booking_def schedule_entry_of_def Let_def split: option.splits)

lemma group_by_room_fold:
  "(case fold push_booking bs m k of None \<Rightarrow> [] | Some es \<Rightarrow> es)
     = (case m k of None \<Rightarrow> [] | Some es \<Rightarrow> es)
         @ map schedule_entry_of (filter (\<lambda>b. b_room_id b = k) bs)"
proof (induction bs arbitrary: m)
  case Nil
  show ?case by simp
next
  case (Cons b bs)
  show ?case
    by (simp add: Cons.IH push_booking_lookup)
qed

lemma group_by_room_lookup:
  "(case group_by_room bs k of None \<Rightarrow> [] | Some es \<Rightarrow> es)
     = map schedule_entry_of (filter (\<lambda>b. b_room_id b = k) bs)"
  using group_by_room_fold [of bs Map.empty k] by (simp add: group_by_room_def)

lemma getRoomSchedules_get:
  assumes "httpMethod ev = ''GET''" "roomsError f = None" "bookingsError f = None"
  shows "getRoomSchedules f now s ev =
     (respond 200 (Schedules (day_number now)
        (map (\<lambda>r. \<lparr>sch_id = r_id r, sch_name = r_name r,
                   sch_bookings = map schedule_entry_of
                     (filter (\<lambda>b. b_room_id b = r_id r)
                        (sort_key b_start_time
                           (filter (\<lambda>b. b_end_time b \<ge> local_midnight now + 8 * 3600000
                                       \<and> b_start_time b \<le> local_midnight now + 19 * 3600000)
                              (bookings s))))\<rparr>)
           (sort_key r_id (filter r_is_active (rooms s))))), s)"
  using assms
  by (simp add: getRoomSchedules_def select_active_rooms_def select_bookings_between_def
        group_by_room_lookup Let_def)

lemma insort_key_map_commute:
  assumes "\<And>x. k (g x) = k x"
  shows "insort_key k (g x) (map g ys) = map g (insort_key k x ys)"
  by (induction ys) (simp_all add: assms)

lemma sort_key_map_commute:
  assumes "\<And>x. k (g x) = k x"
  shows "sort_key k (map g xs) = map g (sort_key k xs)"
proof (induction xs)
  case Nil
  show ?case by simp
next
  case (Cons a xs)
  have "insort_key k (g a) (map g (sort_key k xs)) = map g (insort_key k a (sort_key k xs))"
    by (rule insort_key_map_commute) (rule assms)
  with Cons.IH show ?case by simp
qed

lemma blank_schedule_entry:
  "blank_entry (schedule_entry_of b) = schedule_entry_of (forget_student b)"
  by (simp add: blank_entry_def schedule_entry_of_def forget_student_def)

lemma blank_room_entries:
  "map (\<lambda>b. blank_entry (schedule_entry_of b))
       (filter (\<lambda>b. b_room_id b = k)
          (sort_key b_start_time (filter (\<lambda>b. b_end_time b \<ge> lo \<and> b_start_time b \<le> hi) bs)))
   = map schedule_entry_of
       (filter (\<lambda>b. b_room_id b = k)
          (sort_key b_start_time
             (filter (\<lambda>b. b_end_time b \<ge> lo \<and> b_start_time b \<le> hi) (map forget_student bs))))"
proof -
  let ?W = "\<lambda>b. b_end_time b \<ge> lo \<and> b_start_time b \<le> hi"
  have w: "filter ?W (map forget_student bs) = map forget_student (filter ?W bs)"
    by (simp add: filter_map comp_def forget_student_def)
  have s: "sort_key b_start_time (map forget_student xs)
             = map forget_student (sort_key b_start_time xs)" for xs
    by (rule sort_key_map_commute) (simp add: forget_student_def)
  have r: "filter (\<lambda>b. b_room_id b = k) (map forget_student xs)
             = map forget_student (filter (\<lambda>b. b_room_id b = k) xs)" for xs
    by (simp add: filter_map comp_def forget_student_def)
  show ?thesis
    unfolding w s r by (simp add: blank_schedule_entry comp_def)
qed

lemma local_midnight_day:
  "local_midnight t = msPerDay * day_number t"
  by (simp add: local_midnight_def day_number_def minus_mod_eq_mult_div)

lemma getRooms_same_occupancy:
  assumes "\<forall>b \<in> set (bookings s).
             (b_start_time b \<le> t1 \<and> t1 \<le> b_end_time b) \<longleftrightarrow>
             (b_start_time b \<le> t2 \<and> t2 \<le> b_end_time b)"
  shows "getRooms f t2 s ev = getRooms f t1 s ev"
proof -
  have same: "filter (\<lambda>b. b_end_time b \<ge> t2 \<and> b_start_time b \<le> t2) (bookings s)
      = filter (\<lambda>b. b_end_time b \<ge> t1 \<and> b_start_time b \<le> t1) (bookings s)"
    using assms by (intro filter_cong) auto
  have active: "select_active_bookings f s t2 = select_active_bookings f s t1"
    unfolding select_active_bookings_def same by (rule refl)
  show ?thesis
    unfolding getRooms_def active by (rule refl)
qed

lemma getRoomSchedules_same_day:
  assumes "day_number t1 = day_number t2"
  shows "getRoomSchedules f t2 s ev = getRoomSchedules f t1 s ev"
proof -
  have day: "day_number t2 = day_number t1"
    using assms by simp
  have midnight: "local_midnight t2 = local_midnight t1"
    by (simp add: local_midnight_day day)
  show ?thesis
    unfolding getRoomSchedules_def midnight day by (rule refl)
qed

lemma getRooms_store: "snd (getRooms f now s ev) = s"
  by (simp add: getRooms_def Let_def split: sum.splits)

lemma getRoomSchedules_store: "snd (getRoomSchedules f now s ev) = s"
  by (simp add: getRoomSchedules_def Let_def split: sum.splits)

text \<open>
  A submission that passes every check is answered with 200, and the store gains exactly
  one pending request with the interval from the start to the start plus the duration.
\<close>

lemma valid_submission_accepted:
  assumes "httpMethod ev = ''POST''" and "body ev = Inr req"
    and "required_fields req = Some (sid, rid, st, d)"
    and "student_id_ok sid" and "30 \<le> d" and "d \<le> 120"
    and "roomsError f = None" and "distinct (map r_id (rooms s))"
    and "room \<in> set (rooms s)" and "r_id room = rid" and "r_is_active room"
    and "startDateTime today st = Some startInstant" and "now < startInstant"
    and "endDateTime today st d = Some endInstant"
    and "bookingsError f = None" and "pendingError f = None" and "insertError f = None"
    and "\<not> (\<exists>b \<in> set (bookings s). b_room_id b = rid \<and>
               overlap (b_start_time b) (b_end_time b) startInstant endInstant)"
  shows "submitBookingRequest f today now s ev =
           (respond 200 (Submitted ''Booking request submitted successfully'' (next_request_id s)),
            s\<lparr>booking_requests := booking_requests s @
                 [\<lparr>q_id = next_request_id s, q_student_id = sid, q_room_id = rid,
                   q_start_time = startInstant, q_end_time = startInstant + d * 60000,
                   q_status = ''pending''\<rparr>],
              next_request_id := next_request_id s + 1\<rparr>)"
proof -
  have room: "select_room f s rid = Some room"
    using assms(7-10) by (simp add: select_room_unique)
  have en: "endInstant = startInstant + d * 60000"
    using assms(12,14) by (rule endDateTime_Some)
  have free: "\<not> booked s rid startInstant endInstant"
    using assms(18) by (auto simp: booked_def overlap_def)
  have "submitBookingRequest f today now s ev =
      check_and_insert f s sid rid (Some startInstant) (Some endInstant)"
    using submit_validated [OF assms(1-6) room assms(11), of today now] assms(12-14)
    by simp
  then show ?thesis
    using check_and_insert_accept [OF assms(15-17) free, of sid] en by simp
qed

section \<open>Claims about \<^verbatim>\<open>submitBookingRequest\<close>\<close>

text \<open>
  C1 (no two accepted submissions of one room overlap).  The handler checks a submission
  against the confirmed bookings only: it reads the overlapping pending requests and never
  looks at the result.  On the example store a request for room 1 from 10:00 to 11:00 and,
  a minute later, a request for room 1 from 10:30 to 11:30 are both answered with 200, and
  the table holds both as pending requests although their intervals overlap.
\<close>

theorem same_slot_accepted_twice:
  "(let (r1, s1) = submitBookingRequest no_faults (at_clock 8 0) (at_clock 8 0) example_store
                     (post ''123456'' 1 ''10:00'' 60);
        (r2, s2) = submitBookingRequest no_faults (at_clock 8 1) (at_clock 8 1) s1
                     (post ''234567'' 1 ''10:30'' 60)
    in statusCode r1 = 200 \<and> statusCode r2 = 200 \<and>
       map (\<lambda>q. (q_room_id q, q_start_time q, q_end_time q, q_status q)) (booking_requests s2) =
         [(1, at_clock 10 0, at_clock 11 0, ''pending''),
          (1, at_clock 10 30, at_clock 11 30, ''pending'')] \<and>
       overlap (at_clock 10 0) (at_clock 11 0) (at_clock 10 30) (at_clock 11 30))"
  by code_simp

text \<open>
  C2 (the conflict check).  For a POST whose fields pass the checks before the conflict
  check (present, student id, duration, room found and active, start after \<open>now\<close>) and
  whose query of the bookings succeeds, the response is the 409 rejection if and only if a
  confirmed booking of the requested room has \<open>start_time < endInstant\<close> and
  \<open>end_time > startInstant\<close>.  In particular bookings of the room that end at or before
  the start of the request, or start at or after its end, never give a 409.
\<close>

theorem conflict_iff_overlapping_booking:
  assumes "httpMethod ev = ''POST''" and "body ev = Inr req"
    and "required_fields req = Some (sid, rid, st, d)"
    and "student_id_ok sid" and "30 \<le> d" and "d \<le> 120"
    and "roomsError f = None" and "distinct (map r_id (rooms s))"
    and "room \<in> set (rooms s)" and "r_id room = rid" and "r_is_active room"
    and "startDateTime today st = Some startInstant" and "now < startInstant"
    and "endDateTime today st d = Some endInstant"
    and "bookingsError f = None"
  shows "((fst (submitBookingRequest f today now s ev) =
            respond 409 (Message ''This room is already booked for the selected time''))
          \<longleftrightarrow> (\<exists>b \<in> set (bookings s). b_room_id b = rid \<and> b_start_time b < endInstant
                                       \<and> b_end_time b > startInstant))
       \<and> ((statusCode (fst (submitBookingRequest f today now s ev)) = 409)
          \<longleftrightarrow> (\<exists>b \<in> set (bookings s). b_room_id b = rid \<and> b_start_time b < endInstant
                                       \<and> b_end_time b > startInstant))
       \<and> ((\<forall>b \<in> set (bookings s). b_room_id b = rid \<longrightarrow>
              b_end_time b \<le> startInstant \<or> endInstant \<le> b_start_time b)
          \<longrightarrow> statusCode (fst (submitBookingRequest f today now s ev)) \<noteq> 409)"
proof -
  let ?R = "submitBookingRequest f today now s ev"
  have room: "select_room f s rid = Some room"
    using assms(7-10) by (simp add: select_room_unique)
  have R: "?R = check_and_insert f s sid rid (Some startInstant) (Some endInstant)"
    using submit_validated [OF assms(1-6) room assms(11), of today now] assms(12-14)
    by simp
  have booked: "booked s rid startInstant endInstant \<Longrightarrow> ?R = (rejection RoomAlreadyBooked, s)"
    using R assms(15) by (simp add: check_and_insert_conflict)
  have free: "\<not> booked s rid startInstant endInstant \<Longrightarrow> statusCode (fst ?R) \<noteq> 409"
    using R assms(15)
    by (auto simp: check_and_insert_conflict internal_error_def respond_def
             split: sum.splits prod.splits)
  have code: "statusCode (fst ?R) = 409 \<longleftrightarrow> booked s rid startInstant endInstant"
    using booked free by (auto simp: respond_def)
  have resp: "fst ?R = respond 409 (Message ''This room is already booked for the selected time'')
      \<longleftrightarrow> booked s rid startInstant endInstant"
  proof
    assume "fst ?R = respond 409 (Message ''This room is already booked for the selected time'')"
    then have "statusCode (fst ?R) = 409" by (simp add: respond_def)
    with code show "booked s rid startInstant endInstant" by simp
  next
    assume "booked s rid startInstant endInstant"
    with booked show "fst ?R = respond 409 (Message ''This room is already booked for the selected time'')"
      by simp
  qed
  have touch: "(\<forall>b \<in> set (bookings s). b_room_id b = rid \<longrightarrow>
              b_end_time b \<le> startInstant \<or> endInstant \<le> b_start_time b)
      \<Longrightarrow> \<not> booked s rid startInstant endInstant"
    by (fastforce simp: booked_def)
  show ?thesis
    using code resp touch free unfolding booked_def by blast
qed

text \<open>
  The example store holds a booking of room 1 that ends at 10:00; a request for room 1
  starting at 10:00 is not rejected as a conflict.
\<close>

theorem conflict_iff_overlapping_booking_witness:
  "statusCode (fst (submitBookingRequest no_faults (at_clock 8 0) (at_clock 8 0) example_store
                     (post ''123456'' 1 ''10:00'' 60))) \<noteq> 409
   \<and> b_end_time (hd (bookings example_store)) = at_clock 10 0
   \<and> startDateTime (at_clock 8 0) ''10:00'' = Some (at_clock 10 0)"
proof -
  let ?room = "\<lparr>r_id = 1, r_name = ''Room A'', r_access_group = ''all'', r_is_active = True\<rparr>"
  let ?req = "\<lparr>student_id = Some ''123456'', room_id = Some 1, start_time = Some ''10:00'',
               duration = Some 60\<rparr>"
  have h1: "httpMethod (post ''123456'' 1 ''10:00'' 60) = ''POST''" by (simp add: post_def)
  have h2: "body (post ''123456'' 1 ''10:00'' 60) = Inr ?req" by (simp add: post_def)
  have h3: "required_fields ?req = Some (''123456'', 1, ''10:00'', 60)" by (simp add: required_fields_def)
  have h4: "student_id_ok ''123456''" by (simp add: student_id_ok_def is_digit_def)
  have h5: "(30::int) \<le> 60" and h6: "(60::int) \<le> 120" by simp_all
  have h10: "r_id ?room = 1" and h11: "r_is_active ?room" by simp_all
  have h7: "roomsError no_faults = None" by (simp add: no_faults_def)
  have h8: "distinct (map r_id (rooms example_store))" by (simp add: example_store_def)
  have h9: "?room \<in> set (rooms example_store)" by (simp add: example_store_def)
  have h12: "startDateTime (at_clock 8 0) ''10:00'' = Some (at_clock 10 0)" by code_simp
  have h13: "at_clock 8 0 < at_clock 10 0" by (simp add: at_clock_def)
  have h14: "endDateTime (at_clock 8 0) ''10:00'' 60 = Some (at_clock 11 0)" by code_simp
  have h15: "bookingsError no_faults = None" by (simp add: no_faults_def)
  have touching: "\<forall>b \<in> set (bookings example_store). b_room_id b = 1 \<longrightarrow>
      b_end_time b \<le> at_clock 10 0 \<or> at_clock 11 0 \<le> b_start_time b"
    by (simp add: example_store_def)
  have ends: "b_end_time (hd (bookings example_store)) = at_clock 10 0"
    by (simp add: example_store_def)
  have "statusCode (fst (submitBookingRequest no_faults (at_clock 8 0) (at_clock 8 0) example_store
                     (post ''123456'' 1 ''10:00'' 60))) \<noteq> 409"
    using touching
      conflict_iff_overlapping_booking [OF h1 h2 h3 h4 h5 h6 h7 h8 h9 h10 h11 h12 h13 h14 h15]
    by blast
  with ends h12 show ?thesis by blast
qed

text \<open>
  C4 (a valid submission is accepted, with start and end on the current date).  The handler
  computes the dates under the comment \<^verbatim>\<open>Calculate start and end times (today only)\<close>, and
  checks neither the clock nor the end against the day.  On the example store at 23:00 the
  request for room 1 from 23:30 for 60 minutes is answered with 200 and persisted with an
  end on the next calendar date; the request with the start clock \<^verbatim>\<open>25:00\<close> is answered
  with 200 and persisted with a start on the next calendar date.
\<close>

theorem accepted_interval_leaves_today:
  "submitBookingRequest no_faults (at_clock 23 0) (at_clock 23 0) example_store
      (post ''123456'' 1 ''23:30'' 60) =
     (respond 200 (Submitted ''Booking request submitted successfully'' 1),
      example_store\<lparr>booking_requests :=
          [\<lparr>q_id = 1, q_student_id = ''123456'', q_room_id = 1, q_start_time = at_clock 23 30,
            q_end_time = at_clock 23 30 + 60 * 60000, q_status = ''pending''\<rparr>],
        next_request_id := 2\<rparr>)
   \<and> \<not> same_calendar_date (at_clock 23 30 + 60 * 60000) (at_clock 23 0)
   \<and> submitBookingRequest no_faults (at_clock 23 0) (at_clock 23 0) example_store
      (post ''123456'' 1 ''25:00'' 60) =
     (respond 200 (Submitted ''Booking request submitted successfully'' 1),
      example_store\<lparr>booking_requests :=
          [\<lparr>q_id = 1, q_student_id = ''123456'', q_room_id = 1, q_start_time = at_clock 25 0,
            q_end_time = at_clock 25 0 + 60 * 60000, q_status = ''pending''\<rparr>],
        next_request_id := 2\<rparr>)
   \<and> \<not> same_calendar_date (at_clock 25 0) (at_clock 23 0)"
  by code_simp

text \<open>
  C6 (the start must be in the future).  For a POST that passes the checks before the
  time check, the response is the rejection \<open>Start time must be in the future\<close> if and only
  if the start is a valid date with \<open>startInstant \<le> now\<close>.  In particular a start
  clock equal to the hours and minutes of the current instant is rejected.
\<close>

theorem past_start_rejected:
  assumes "httpMethod ev = ''POST''" and "body ev = Inr req"
    and "required_fields req = Some (sid, rid, st, d)"
    and "student_id_ok sid" and "30 \<le> d" and "d \<le> 120"
    and "roomsError f = None" and "distinct (map r_id (rooms s))"
    and "room \<in> set (rooms s)" and "r_id room = rid" and "r_is_active room"
  shows "((fst (submitBookingRequest f today now s ev) =
             respond 400 (Message ''Start time must be in the future''))
          \<longleftrightarrow> (\<exists>startInstant. startDateTime today st = Some startInstant \<and> startInstant \<le> now))
       \<and> (parse_clock st = (Some (getHours today), Some (getMinutes today)) \<and>
            0 \<le> today \<and> today \<le> 8640000000000000 \<and> today \<le> now
          \<longrightarrow> submitBookingRequest f today now s ev =
                (respond 400 (Message ''Start time must be in the future''), s))"
proof -
  let ?R = "submitBookingRequest f today now s ev"
  let ?past = "case startDateTime today st of None \<Rightarrow> False | Some t \<Rightarrow> t \<le> now"
  have room: "select_room f s rid = Some room"
    using assms(7-10) by (simp add: select_room_unique)
  note R = submit_validated [OF assms(1-6) room assms(11), of today now]
  have past: "?past \<longleftrightarrow> (\<exists>t. startDateTime today st = Some t \<and> t \<le> now)"
    by (cases "startDateTime today st") auto
  have yes: "?past \<Longrightarrow> ?R = (respond 400 (Message ''Start time must be in the future''), s)"
    using R by simp
  have no: "\<not> ?past \<Longrightarrow> statusCode (fst ?R) \<noteq> 400"
    using R by (simp add: check_and_insert_not_400)
  have first: "fst ?R = respond 400 (Message ''Start time must be in the future'') \<longleftrightarrow> ?past"
  proof
    assume "fst ?R = respond 400 (Message ''Start time must be in the future'')"
    then have "statusCode (fst ?R) = 400" by (simp add: respond_def)
    with no show ?past by blast
  next
    assume ?past
    with yes show "fst ?R = respond 400 (Message ''Start time must be in the future'')" by simp
  qed
  have minute: "?past"
    if clock: "parse_clock st = (Some (getHours today), Some (getMinutes today))"
      and range: "0 \<le> today" "today \<le> 8640000000000000" and le: "today \<le> now"
  proof -
    have lo: "0 \<le> today - today mod 60000"
      using range(1) by (simp add: minus_mod_eq_mult_div)
    have hi: "today - today mod 60000 \<le> today"
      by simp
    have "startDateTime today st = Some (today - today mod 60000)"
      using clock lo hi range(2)
      by (simp add: startDateTime_def date_of_clock_def clock_of_instant time_clip_def)
    with hi le show ?thesis by simp
  qed
  show ?thesis
    using first past yes minute by blast
qed

text \<open>
  At 10:00:30 a request that starts at 10:00 is rejected, and the store is unchanged.
\<close>

theorem past_start_rejected_witness:
  "parse_clock ''10:00'' = (Some (getHours (at_clock 10 0 + 30000)),
                            Some (getMinutes (at_clock 10 0 + 30000)))
   \<and> submitBookingRequest no_faults (at_clock 10 0 + 30000) (at_clock 10 0 + 30000) example_store
        (post ''123456'' 1 ''10:00'' 60) =
      (respond 400 (Message ''Start time must be in the future''), example_store)"
proof -
  let ?room = "\<lparr>r_id = 1, r_name = ''Room A'', r_access_group = ''all'', r_is_active = True\<rparr>"
  let ?req = "\<lparr>student_id = Some ''123456'', room_id = Some 1, start_time = Some ''10:00'',
               duration = Some 60\<rparr>"
  let ?t = "at_clock 10 0 + 30000"
  have h1: "httpMethod (post ''123456'' 1 ''10:00'' 60) = ''POST''" by (simp add: post_def)
  have h2: "body (post ''123456'' 1 ''10:00'' 60) = Inr ?req" by (simp add: post_def)
  have h3: "required_fields ?req = Some (''123456'', 1, ''10:00'', 60)"
    by (simp add: required_fields_def)
  have h4: "student_id_ok ''123456''" by (simp add: student_id_ok_def is_digit_def)
  have h5: "(30::int) \<le> 60" and h6: "(60::int) \<le> 120" by simp_all
  have h7: "roomsError no_faults = None" by (simp add: no_faults_def)
  have h8: "distinct (map r_id (rooms example_store))" by (simp add: example_store_def)
  have h9: "?room \<in> set (rooms example_store)" by (simp add: example_store_def)
  have h10: "r_id ?room = 1" and h11: "r_is_active ?room" by simp_all
  have clock: "parse_clock ''10:00'' = (Some (getHours ?t), Some (getMinutes ?t))"
    by code_simp
  have range: "0 \<le> ?t" "?t \<le> 8640000000000000" "?t \<le> ?t"
    by (simp_all add: at_clock_def)
  from clock range
    past_start_rejected [OF h1 h2 h3 h4 h5 h6 h7 h8 h9 h10 h11, of ?t ?t]
  show ?thesis by blast
qed

text \<open>
  C5 (the first failing rule gives the reason), as the handler has it, on every JSON body.
  An input counts as missing when it is falsy: absent, \<^verbatim>\<open>null\<close>, \<^verbatim>\<open>false\<close>, the number 0
  or the empty string.  With that reading of the first rule, for a POST whose room lookup
  and bookings query succeed on a store with unique room ids, and whose duration is a
  number where it is supplied: if the response is the rejection of reason \<open>r\<close> then \<open>r\<close>
  is the first rule that fails in the order MissingFields, InvalidStudentId,
  InvalidDuration, InvalidRoom, InactiveRoom, StartTimeInPast, RoomAlreadyBooked; when
  every value of the body can be converted, the response is that rejection if and only
  if \<open>r\<close> is the first rule that fails.  In particular an input with no missing field that
  fails the student id rule and the duration rule is rejected with InvalidStudentId.
\<close>

theorem rejected_for_first_failing_rule:
  assumes "raw_httpMethod ev = ''POST''" and "raw_body ev = Inr req"
    and "roomsError f = None" and "distinct (map r_id (rooms s))"
    and "bookingsError f = None"
    and "numeric_duration h req"
  shows "(fst (submitBookingRequest_json h f today now s ev) = rejection r
            \<longrightarrow> first_failing_rule_json some_falsy_json h s today now req = Some r)
       \<and> (converts h req \<longrightarrow>
            ((fst (submitBookingRequest_json h f today now s ev) = rejection r)
               \<longleftrightarrow> (first_failing_rule_json some_falsy_json h s today now req = Some r)))
       \<and> (\<not> some_falsy_json req
             \<and> rule_fails_json some_falsy_json h s today now req InvalidStudentId
             \<and> rule_fails_json some_falsy_json h s today now req InvalidDuration
            \<longrightarrow> fst (submitBookingRequest_json h f today now s ev) = rejection InvalidStudentId)"
proof -
  let ?R = "submitBookingRequest_json h f today now s ev"
  let ?P = "rule_fails_json some_falsy_json h s today now req"
  let ?F = "first_failing_rule_json some_falsy_json h s today now req"
  have F: "?F = (if ?P MissingFields then Some MissingFields
                 else if ?P InvalidStudentId then Some InvalidStudentId
                 else if ?P InvalidDuration then Some InvalidDuration
                 else if ?P InvalidRoom then Some InvalidRoom
                 else if ?P InactiveRoom then Some InactiveRoom
                 else if ?P StartTimeInPast then Some StartTimeInPast
                 else if ?P RoomAlreadyBooked then Some RoomAlreadyBooked
                 else None)"
    by (simp add: first_failing_rule_json_def rule_order_def)
  have main: "(fst ?R = rejection r \<longrightarrow> ?F = Some r)
     \<and> (converts h req \<longrightarrow> (fst ?R = rejection r \<longleftrightarrow> ?F = Some r))
     \<and> (\<not> some_falsy_json req \<and> ?P InvalidStudentId \<longrightarrow> fst ?R = rejection InvalidStudentId)"
  proof (cases "truthy_fields req")
    case None
    then have "some_falsy_json req" by (simp add: truthy_fields_None)
    moreover have "fst ?R = rejection MissingFields"
      using assms(1,2) None by (simp add: submitBookingRequest_json_def)
    ultimately show ?thesis
      using F rejection_inj [of MissingFields r] by auto
  next
    case (Some t)
    obtain sid rid st d where t: "t = (sid, rid, st, d)"
      by (cases t) auto
    note tf = Some [unfolded t]
    from truthy_fields_Some [OF tf]
    have fields: "raw_student_id req = Some sid" "raw_room_id req = Some rid"
      "raw_start_time req = Some st" "raw_duration req = Some d" by simp_all
    have p1: "\<not> ?P MissingFields"
      using tf truthy_fields_None [of req] by simp
    show ?thesis
    proof (cases "to_string h sid")
      case None
      then have "fst ?R = internal_error type_error"
        using assms(1,2) tf by (simp add: submitBookingRequest_json_def)
      moreover have "\<not> converts h req" "\<not> ?P InvalidStudentId"
        using None by (simp_all add: converts_def fields)
      ultimately show ?thesis
        using rejection_not_internal [of type_error] p1 by metis
    next
      case sid_text: (Some sid_text)
      have p2: "?P InvalidStudentId \<longleftrightarrow> \<not> student_id_ok sid_text"
        by (simp add: fields sid_text)
      show ?thesis
      proof (cases "student_id_ok sid_text")
        case False
        then have "fst ?R = rejection InvalidStudentId"
          using assms(1,2) tf sid_text by (simp add: submitBookingRequest_json_def)
        then show ?thesis
          using F p1 p2 False rejection_inj [of InvalidStudentId r] by auto
      next
        case sid_ok: True
        show ?thesis
        proof (cases "to_number h d")
          case None
          then have "fst ?R = internal_error type_error"
            using assms(1,2) tf sid_text sid_ok by (simp add: submitBookingRequest_json_def)
          moreover have "\<not> converts h req"
            using None by (simp add: converts_def fields)
          ultimately show ?thesis
            using rejection_not_internal [of type_error] p2 sid_ok by metis
        next
          case minutes: (Some minutes)
          have number: "minutes \<noteq> NaN"
            using assms(6) minutes by (simp add: numeric_duration_def fields)
          have p3: "?P InvalidDuration \<longleftrightarrow> number_less minutes 30 \<or> number_greater minutes 120"
            using in_range_iff [OF number] by (simp add: fields minutes)
          show ?thesis
          proof (cases "number_less minutes 30 \<or> number_greater minutes 120")
            case True
            then have "fst ?R = rejection InvalidDuration"
              using assms(1,2) tf sid_text sid_ok minutes by (auto simp: submitBookingRequest_json_def)
            then show ?thesis
              using F p1 p2 p3 sid_ok True rejection_inj [of InvalidDuration r] by auto
          next
            case dur_ok: False
            show ?thesis
            proof (cases "to_string h rid")
              case None
              then have "fst ?R = internal_error type_error"
                using assms(1,2) tf sid_text sid_ok minutes dur_ok
                by (auto simp: submitBookingRequest_json_def)
              moreover have "\<not> converts h req"
                using None by (simp add: converts_def fields)
              ultimately show ?thesis
                using rejection_not_internal [of type_error] p2 sid_ok by metis
            next
              case rid_text: (Some rid_text)
              have p4: "?P InvalidRoom \<longleftrightarrow> select_room_by_text h f s rid_text = None"
                by (cases "filter_id h rid_text")
                   (simp_all add: fields rid_text select_room_by_text_def
                      select_room_none [OF assms(3,4)])
              show ?thesis
              proof (cases "select_room_by_text h f s rid_text")
                case None
                then have "fst ?R = rejection InvalidRoom"
                  using assms(1,2) tf sid_text sid_ok minutes dur_ok rid_text
                  by (auto simp: submitBookingRequest_json_def)
                then show ?thesis
                  using F p1 p2 p3 p4 sid_ok dur_ok None rejection_inj [of InvalidRoom r]
                  by auto
              next
                case (Some room)
                then obtain k where k: "filter_id h rid_text = Some k"
                  and sel: "select_room f s k = Some room"
                  by (auto simp: select_room_by_text_def split: option.splits)
                have key: "room_key h rid = Some k"
                  by (simp add: room_key_def rid_text k)
                have room: "room \<in> set (rooms s)" "r_id room = k"
                  using select_room_unique [OF assms(3,4), of k room] sel by simp_all
                have only: "x = room" if "x \<in> set (rooms s)" "r_id x = k" for x
                  using select_room_unique [OF assms(3,4), of k x] that sel by simp
                have "?P InactiveRoom \<longleftrightarrow> (\<exists>x \<in> set (rooms s). r_id x = k \<and> \<not> r_is_active x)"
                  by (simp add: fields key)
                also have "\<dots> \<longleftrightarrow> \<not> r_is_active room"
                  using room only by blast
                finally have p5: "?P InactiveRoom \<longleftrightarrow> \<not> r_is_active room" .
                show ?thesis
                proof (cases "r_is_active room")
                  case False
                  then have "fst ?R = rejection InactiveRoom"
                    using assms(1,2) tf sid_text sid_ok minutes dur_ok rid_text Some
                    by (auto simp: submitBookingRequest_json_def)
                  then show ?thesis
                    using F p1 p2 p3 p4 p5 sid_ok dur_ok Some False
                      rejection_inj [of InactiveRoom r]
                    by auto
                next
                  case active: True
                  show ?thesis
                  proof (cases "start_clock req")
                    case None
                    then have "\<forall>clock. st \<noteq> JStr clock"
                      by (auto simp: start_clock_def fields split: json.splits)
                    then have "fst ?R = internal_error ''start_time.split is not a function''"
                      using assms(1,2) tf sid_text sid_ok minutes dur_ok rid_text Some active
                      by (cases st) (auto simp: submitBookingRequest_json_def)
                    moreover have "\<not> converts h req"
                      using None by (simp add: converts_def fields)
                    ultimately show ?thesis
                      using rejection_not_internal [of "''start_time.split is not a function''"]
                        p2 sid_ok
                      by metis
                  next
                    case (Some clock)
                    then have st: "st = JStr clock"
                      by (auto simp: start_clock_def fields split: json.splits)
                    let ?past = "case startDateTime today clock of
                                   None \<Rightarrow> False | Some t \<Rightarrow> t \<le> now"
                    have p6: "?P StartTimeInPast \<longleftrightarrow> ?past"
                      by (simp add: Some)
                    have p7: "?P RoomAlreadyBooked \<longleftrightarrow>
                        (\<exists>a b. startDateTime today clock = Some a
                           \<and> date_plus_minutes (startDateTime today clock) minutes = Some b
                           \<and> booked s k a b)"
                      by (cases "startDateTime today clock")
                         (simp_all add: fields key Some minutes split: option.splits)
                    show ?thesis
                    proof (cases ?past)
                      case True
                      then have "fst ?R = rejection StartTimeInPast"
                        using assms(1,2) tf sid_text sid_ok minutes dur_ok rid_text
                          \<open>select_room_by_text h f s rid_text = Some room\<close> active st
                        by (auto simp: submitBookingRequest_json_def)
                      then show ?thesis
                        using F p1 p2 p3 p4 p5 p6 sid_ok dur_ok
                          \<open>select_room_by_text h f s rid_text = Some room\<close> active True
                          rejection_inj [of StartTimeInPast r]
                        by auto
                    next
                      case False
                      then have "fst ?R = fst (check_and_insert_json h f s sid rid rid_text
                          (startDateTime today clock)
                          (date_plus_minutes (startDateTime today clock) minutes))"
                        using assms(1,2) tf sid_text sid_ok minutes dur_ok rid_text
                          \<open>select_room_by_text h f s rid_text = Some room\<close> active st
                        by (auto simp: submitBookingRequest_json_def)
                      then have "fst ?R = rejection r
                          \<longleftrightarrow> (r = RoomAlreadyBooked \<and> ?P RoomAlreadyBooked)"
                        using check_and_insert_json_response [OF k]
                          check_and_insert_rejection [OF assms(5)] p7
                        by simp
                      then show ?thesis
                        using F p1 p2 p3 p4 p5 p6 sid_ok dur_ok
                          \<open>select_room_by_text h f s rid_text = Some room\<close> active False
                        by auto
                    qed
                  qed
                qed
              qed
            qed
          qed
        qed
      qed
    qed
  qed
  then show ?thesis by blast
qed

text \<open>
  The student id \<open>12345\<close> with the duration 200 fails both rules and is rejected with
  InvalidStudentId.  No conversion of the host is consulted.
\<close>

theorem rejected_for_first_failing_rule_witness:
  "fst (submitBookingRequest_json example_host no_faults (at_clock 8 0) (at_clock 8 0) example_store
          (post_json (JStr ''12345'') (JNum 1) (JStr ''10:00'') (JNum 200)))
     = rejection InvalidStudentId
   \<and> first_failing_rule_json some_falsy_json example_host example_store (at_clock 8 0) (at_clock 8 0)
        \<lparr>raw_student_id = Some (JStr ''12345''), raw_room_id = Some (JNum 1),
         raw_start_time = Some (JStr ''10:00''), raw_duration = Some (JNum 200)\<rparr>
     = Some InvalidStudentId"
proof -
  let ?req = "\<lparr>raw_student_id = Some (JStr ''12345''), raw_room_id = Some (JNum 1),
         raw_start_time = Some (JStr ''10:00''), raw_duration = Some (JNum 200)\<rparr>"
  let ?ev = "post_json (JStr ''12345'') (JNum 1) (JStr ''10:00'') (JNum 200)"
  have h1: "raw_httpMethod ?ev = ''POST''" by (simp add: post_json_def)
  have h2: "raw_body ?ev = Inr ?req" by (simp add: post_json_def)
  have h3: "roomsError no_faults = None" and h5: "bookingsError no_faults = None"
    by (simp_all add: no_faults_def)
  have h4: "distinct (map r_id (rooms example_store))" by (simp add: example_store_def)
  have h6: "numeric_duration example_host ?req"
    by (simp add: numeric_duration_def to_number_def)
  have fails: "\<not> some_falsy_json ?req
      \<and> rule_fails_json some_falsy_json example_host example_store (at_clock 8 0) (at_clock 8 0)
            ?req InvalidStudentId
      \<and> rule_fails_json some_falsy_json example_host example_store (at_clock 8 0) (at_clock 8 0)
            ?req InvalidDuration"
    by (simp add: some_falsy_json_def is_falsy_def student_id_ok_def to_number_def in_range_def)
  note inst = rejected_for_first_failing_rule [OF h1 h2 h3 h4 h5 h6,
      of "at_clock 8 0" "at_clock 8 0" InvalidStudentId]
  from inst fails
  have a: "fst (submitBookingRequest_json example_host no_faults (at_clock 8 0) (at_clock 8 0) example_store ?ev)
      = rejection InvalidStudentId"
    by blast
  with inst
  have "first_failing_rule_json some_falsy_json example_host example_store (at_clock 8 0)
      (at_clock 8 0) ?req = Some InvalidStudentId"
    by blast
  with a show ?thesis by blast
qed

text \<open>
  C5 as stated, with "all four inputs present" read as "supplied in the body", fails for
  a duration of 0: all four fields are supplied, the first rule that fails is the student
  id rule, and the handler answers with the rejection for missing fields.  No conversion of
  the host is consulted.
\<close>

theorem falsy_duration_counterexample:
  "first_failing_rule_json some_absent_json example_host example_store (at_clock 8 0) (at_clock 8 0)
      \<lparr>raw_student_id = Some (JStr ''12345''), raw_room_id = Some (JNum 1),
       raw_start_time = Some (JStr ''10:00''), raw_duration = Some (JNum 0)\<rparr>
     = Some InvalidStudentId
   \<and> fst (submitBookingRequest_json example_host no_faults (at_clock 8 0) (at_clock 8 0) example_store
            (post_json (JStr ''12345'') (JNum 1) (JStr ''10:00'') (JNum 0)))
     = rejection MissingFields
   \<and> rejection MissingFields \<noteq> rejection InvalidStudentId"
  by code_simp

text \<open>
  A duration that is no number passes the range test of the handler, since every comparison
  with \<open>NaN\<close> is false: with the duration \<^verbatim>\<open>"abc"\<close> and a room id that no room has, the
  handler answers with the rejection for the room although the duration rule fails.  The
  statement above leaves such durations out.
\<close>

lemma non_numeric_duration_passes_the_range_test:
  "fst (submitBookingRequest_json example_host no_faults (at_clock 8 0) (at_clock 8 0) example_store
            (post_json (JStr ''123456'') (JNum 999) (JStr ''10:00'') (JStr ''abc'')))
     = rejection InvalidRoom
   \<and> rule_fails_json some_falsy_json example_host example_store (at_clock 8 0) (at_clock 8 0)
        \<lparr>raw_student_id = Some (JStr ''123456''), raw_room_id = Some (JNum 999),
         raw_start_time = Some (JStr ''10:00''), raw_duration = Some (JStr ''abc'')\<rparr>
        InvalidDuration"
  by code_simp

text \<open>
  C8 (pending requests never decide the outcome).  Two stores with the same rooms and the
  same confirmed bookings, whatever their \<^verbatim>\<open>booking_requests\<close> tables hold, give the same
  status and message for the same submission under the same failures of the queries; when
  their sequences agree as well, the whole response is the same.
\<close>

theorem pending_requests_ignored:
  assumes "rooms s = rooms s'" and "bookings s = bookings s'"
  shows "outcome (fst (submitBookingRequest f today now s ev))
           = outcome (fst (submitBookingRequest f today now s' ev))
       \<and> (next_request_id s = next_request_id s' \<longrightarrow>
            fst (submitBookingRequest f today now s ev)
              = fst (submitBookingRequest f today now s' ev))"
proof -
  have room: "select_room f s rid = select_room f s' rid" for rid
    unfolding select_room_def assms(1) by (rule refl)
  show ?thesis
    using check_and_insert_store_independent [OF assms(2)]
    by (auto simp: submitBookingRequest_def room split: option.splits sum.splits prod.splits)
qed

text \<open>
  The request for room 1 from 14:30 is accepted on the example store, and just the same
  when the store holds a pending request for room 1 from 14:00 to 15:00.
\<close>

theorem pending_requests_ignored_witness:
  "outcome (fst (submitBookingRequest no_faults (at_clock 8 0) (at_clock 8 0) example_store
                   (post ''123456'' 1 ''14:30'' 90)))
     = outcome (fst (submitBookingRequest no_faults (at_clock 8 0) (at_clock 8 0)
                   (example_store\<lparr>booking_requests :=
                       [\<lparr>q_id = 1, q_student_id = ''234567'', q_room_id = 1,
                         q_start_time = at_clock 14 0, q_end_time = at_clock 15 0,
                         q_status = ''pending''\<rparr>],
                     next_request_id := 2\<rparr>)
                   (post ''123456'' 1 ''14:30'' 90)))
   \<and> outcome (fst (submitBookingRequest no_faults (at_clock 8 0) (at_clock 8 0) example_store
                   (post ''123456'' 1 ''14:30'' 90)))
     = (200, Message ''Booking request submitted successfully'')"
proof -
  let ?s' = "example_store\<lparr>booking_requests :=
                       [\<lparr>q_id = 1, q_student_id = ''234567'', q_room_id = 1,
                         q_start_time = at_clock 14 0, q_end_time = at_clock 15 0,
                         q_status = ''pending''\<rparr>],
                     next_request_id := 2\<rparr>"
  have r: "rooms example_store = rooms ?s'" and b: "bookings example_store = bookings ?s'"
    by simp_all
  have "outcome (fst (submitBookingRequest no_faults (at_clock 8 0) (at_clock 8 0) example_store
                   (post ''123456'' 1 ''14:30'' 90)))
     = (200, Message ''Booking request submitted successfully'')"
    by code_simp
  with pending_requests_ignored [OF r b, of no_faults "at_clock 8 0" "at_clock 8 0"
      "post ''123456'' 1 ''14:30'' 90"]
  show ?thesis by blast
qed

text \<open>
  C10 (a row is persisted exactly on acceptance), as the handler has it.  The table gains
  one pending row if and only if the response is 200 and the request is not the OPTIONS
  preflight; on every response other than 200 the store is unchanged; the preflight
  is answered with 200 and an empty body and leaves the store unchanged.
\<close>

theorem row_persisted_iff_accepted:
  "((\<exists>q. q_status q = ''pending'' \<and>
          booking_requests (snd (submitBookingRequest f today now s ev)) = booking_requests s @ [q])
      \<longleftrightarrow> (statusCode (fst (submitBookingRequest f today now s ev)) = 200
             \<and> httpMethod ev \<noteq> ''OPTIONS''))
   \<and> (statusCode (fst (submitBookingRequest f today now s ev)) \<noteq> 200
        \<longrightarrow> snd (submitBookingRequest f today now s ev) = s)
   \<and> (httpMethod ev = ''OPTIONS''
        \<longrightarrow> submitBookingRequest f today now s ev = (respond 200 Empty, s))"
proof -
  let ?R = "submitBookingRequest f today now s ev"
  have unchanged: "\<not> (\<exists>q. booking_requests s = booking_requests s @ [q])"
    by simp
  from submit_effect [of f today now s ev]
  consider (same) "snd ?R = s" "statusCode (fst ?R) \<noteq> 200 \<or> httpMethod ev = ''OPTIONS''"
    | (new) q where "statusCode (fst ?R) = 200" "httpMethod ev \<noteq> ''OPTIONS''"
        "q_status q = ''pending''"
        "snd ?R = s\<lparr>booking_requests := booking_requests s @ [q],
                    next_request_id := next_request_id s + 1\<rparr>"
    by blast
  then have first: "(\<exists>q. q_status q = ''pending'' \<and>
          booking_requests (snd ?R) = booking_requests s @ [q])
      \<longleftrightarrow> (statusCode (fst ?R) = 200 \<and> httpMethod ev \<noteq> ''OPTIONS'')"
  proof cases
    case same
    then show ?thesis using unchanged by auto
  next
    case new
    then show ?thesis by auto
  qed
  have second: "statusCode (fst ?R) \<noteq> 200 \<longrightarrow> snd ?R = s"
    using submit_effect [of f today now s ev] by blast
  have third: "httpMethod ev = ''OPTIONS'' \<longrightarrow> ?R = (respond 200 Empty, s)"
    by (simp add: submitBookingRequest_def)
  from first second third show ?thesis by blast
qed

text \<open>
  A request for the inactive room 2 is answered with 400 and leaves the example store as it
  was.
\<close>

theorem row_persisted_iff_accepted_witness:
  "statusCode (fst (submitBookingRequest no_faults (at_clock 8 0) (at_clock 8 0) example_store
                      (post ''123456'' 2 ''14:30'' 90))) = 400
   \<and> snd (submitBookingRequest no_faults (at_clock 8 0) (at_clock 8 0) example_store
             (post ''123456'' 2 ''14:30'' 90)) = example_store"
proof -
  have code: "statusCode (fst (submitBookingRequest no_faults (at_clock 8 0) (at_clock 8 0) example_store
                      (post ''123456'' 2 ''14:30'' 90))) = 400"
    by code_simp
  then have "statusCode (fst (submitBookingRequest no_faults (at_clock 8 0) (at_clock 8 0) example_store
                      (post ''123456'' 2 ''14:30'' 90))) \<noteq> 200"
    by simp
  with row_persisted_iff_accepted
    [of no_faults "at_clock 8 0" "at_clock 8 0" example_store "post ''123456'' 2 ''14:30'' 90"]
  have "snd (submitBookingRequest no_faults (at_clock 8 0) (at_clock 8 0) example_store
             (post ''123456'' 2 ''14:30'' 90)) = example_store"
    by blast
  with code show ?thesis by blast
qed

text \<open>
  C10 as stated fails for the preflight: an OPTIONS request is answered with 200 and no row
  is persisted.
\<close>

theorem preflight_counterexample:
  "statusCode (fst (submitBookingRequest no_faults (at_clock 8 0) (at_clock 8 0) example_store
                      \<lparr>httpMethod = ''OPTIONS'', body = Inl []\<rparr>)) = 200
   \<and> booking_requests (snd (submitBookingRequest no_faults (at_clock 8 0) (at_clock 8 0)
                               example_store \<lparr>httpMethod = ''OPTIONS'', body = Inl []\<rparr>))
       = booking_requests example_store"
  by (simp add: submitBookingRequest_def respond_def)

section \<open>Claims about \<^verbatim>\<open>getRooms\<close> and \<^verbatim>\<open>getRoomSchedules\<close>\<close>

text \<open>
  C7 (the room list).  For a GET whose two queries succeed, at every instant \<open>now\<close> and on
  every store, \<^verbatim>\<open>getRooms\<close> answers 200 with a list that is in ascending order of id,
  holds exactly the active rooms (their ids and names, as often as the table has them),
  and marks a room unavailable if and only if a confirmed booking of that room has
  \<open>start_time \<le> now \<le> end_time\<close>.  A room all of whose bookings ended before \<open>now\<close>
  or start after it is marked available.
\<close>

theorem listed_rooms_and_availability:
  assumes "httpMethod ev = ''GET''" and "roomsError f = None" and "bookingsError f = None"
  shows "\<exists>listed. getRooms f now s ev = (respond 200 (RoomsWithStatus listed), s)
      \<and> sorted (map rs_id listed)
      \<and> mset (map (\<lambda>x. (rs_id x, rs_name x)) listed)
          = mset (map (\<lambda>r. (r_id r, r_name r)) (filter r_is_active (rooms s)))
      \<and> (\<forall>x \<in> set listed. (\<not> is_available x) \<longleftrightarrow>
            (\<exists>b \<in> set (bookings s). b_room_id b = rs_id x \<and> b_start_time b \<le> now
                                      \<and> now \<le> b_end_time b))
      \<and> (\<forall>x \<in> set listed.
            (\<forall>b \<in> set (bookings s). b_room_id b = rs_id x \<longrightarrow>
                b_end_time b < now \<or> now < b_start_time b) \<longrightarrow> is_available x)"
proof -
  let ?occ = "set (map b_room_id
                (filter (\<lambda>b. b_end_time b \<ge> now \<and> b_start_time b \<le> now) (bookings s)))"
  let ?row = "\<lambda>r. \<lparr>rs_id = r_id r, rs_name = r_name r, is_available = (r_id r \<notin> ?occ)\<rparr>"
  let ?active = "sort_key r_id (filter r_is_active (rooms s))"
  let ?listed = "map ?row ?active"
  have resp: "getRooms f now s ev = (respond 200 (RoomsWithStatus ?listed), s)"
    using assms by (rule getRooms_get)
  have ids: "map rs_id ?listed = map r_id ?active"
    by (simp add: comp_def)
  have ordered: "sorted (map rs_id ?listed)"
    unfolding ids by (rule sorted_sort_key)
  have names: "map (\<lambda>x. (rs_id x, rs_name x)) ?listed = map (\<lambda>r. (r_id r, r_name r)) ?active"
    by (simp add: comp_def)
  have "mset (map (\<lambda>r. (r_id r, r_name r)) ?active)
          = mset (map (\<lambda>r. (r_id r, r_name r)) (filter r_is_active (rooms s)))"
    by simp
  then have same: "mset (map (\<lambda>x. (rs_id x, rs_name x)) ?listed)
          = mset (map (\<lambda>r. (r_id r, r_name r)) (filter r_is_active (rooms s)))"
    unfolding names .
  have avail: "(\<not> is_available x) \<longleftrightarrow>
            (\<exists>b \<in> set (bookings s). b_room_id b = rs_id x \<and> b_start_time b \<le> now
                                      \<and> now \<le> b_end_time b)"
    if "x \<in> set ?listed" for x
  proof -
    have "\<forall>y \<in> set ?listed. is_available y \<longleftrightarrow> rs_id y \<notin> ?occ"
      by simp
    with that have x: "is_available x \<longleftrightarrow> rs_id x \<notin> ?occ"
      by blast
    have "rs_id x \<in> ?occ \<longleftrightarrow>
        (\<exists>b \<in> set (bookings s). b_room_id b = rs_id x \<and> b_start_time b \<le> now
                                  \<and> now \<le> b_end_time b)"
      by force
    with x show ?thesis by blast
  qed
  have free: "is_available x"
    if "x \<in> set ?listed"
      and "\<forall>b \<in> set (bookings s). b_room_id b = rs_id x \<longrightarrow>
                b_end_time b < now \<or> now < b_start_time b" for x
    using avail [OF that(1)] that(2) by fastforce
  from resp ordered same avail free show ?thesis
    by blast
qed

text \<open>
  Room 1 of the example store is booked until 10:00: at 10:00 it is listed as unavailable,
  one millisecond later as available.  The inactive room 2 is not listed.
\<close>

theorem listed_rooms_and_availability_witness:
  "getRooms no_faults (at_clock 10 0) example_store get_event =
     (respond 200 (RoomsWithStatus [\<lparr>rs_id = 1, rs_name = ''Room A'', is_available = False\<rparr>]),
      example_store)
   \<and> getRooms no_faults (at_clock 10 0 + 1) example_store get_event =
     (respond 200 (RoomsWithStatus [\<lparr>rs_id = 1, rs_name = ''Room A'', is_available = True\<rparr>]),
      example_store)"
proof -
  have h1: "httpMethod get_event = ''GET''" by (simp add: get_event_def)
  have h2: "roomsError no_faults = None" and h3: "bookingsError no_faults = None"
    by (simp_all add: no_faults_def)
  have at_end: "getRooms no_faults (at_clock 10 0) example_store get_event =
     (respond 200 (RoomsWithStatus [\<lparr>rs_id = 1, rs_name = ''Room A'', is_available = False\<rparr>]),
      example_store)"
    by code_simp
  from listed_rooms_and_availability [OF h1 h2 h3, of "at_clock 10 0 + 1" example_store]
  obtain listed where
    resp: "getRooms no_faults (at_clock 10 0 + 1) example_store get_event
             = (respond 200 (RoomsWithStatus listed), example_store)"
    and names: "mset (map (\<lambda>x. (rs_id x, rs_name x)) listed)
          = mset (map (\<lambda>r. (r_id r, r_name r)) (filter r_is_active (rooms example_store)))"
    and free: "\<forall>x \<in> set listed.
            (\<forall>b \<in> set (bookings example_store). b_room_id b = rs_id x \<longrightarrow>
                b_end_time b < at_clock 10 0 + 1 \<or> at_clock 10 0 + 1 < b_start_time b)
            \<longrightarrow> is_available x"
    by blast
  from names have "mset (map (\<lambda>x. (rs_id x, rs_name x)) listed) = {#(1, ''Room A'')#}"
    by (simp add: example_store_def)
  then obtain x where listed: "listed = [x]" and x: "rs_id x = 1" "rs_name x = ''Room A''"
    by (cases listed) auto
  have "\<forall>b \<in> set (bookings example_store). b_room_id b = rs_id x \<longrightarrow>
                b_end_time b < at_clock 10 0 + 1 \<or> at_clock 10 0 + 1 < b_start_time b"
    by (simp add: example_store_def)
  with free listed have "is_available x" by simp
  with x have "x = \<lparr>rs_id = 1, rs_name = ''Room A'', is_available = True\<rparr>"
    by (cases x) simp
  with resp listed at_end show ?thesis by simp
qed

text \<open>
  C9 (repeated reads), as the handlers have it.  Neither \<^verbatim>\<open>getRooms\<close> nor
  \<^verbatim>\<open>getRoomSchedules\<close> changes the store.  Both read the clock, so with no write in between
  and the queries failing or succeeding alike, a second call of \<^verbatim>\<open>getRooms\<close> at the instant
  \<open>t2\<close> gives the result of the first call at \<open>t1\<close> whenever every confirmed booking
  contains both instants or neither, and a second call of \<^verbatim>\<open>getRoomSchedules\<close> gives the
  result of the first whenever the two instants are on the same calendar day.
\<close>

theorem reads_repeat_until_a_booking_changes:
  "snd (getRooms f t1 s ev) = s
   \<and> snd (getRoomSchedules f t1 s ev) = s
   \<and> ((\<forall>b \<in> set (bookings s).
          (b_start_time b \<le> t1 \<and> t1 \<le> b_end_time b) \<longleftrightarrow>
          (b_start_time b \<le> t2 \<and> t2 \<le> b_end_time b))
        \<longrightarrow> getRooms f t2 (snd (getRooms f t1 s ev)) ev = getRooms f t1 s ev)
   \<and> (day_number t1 = day_number t2
        \<longrightarrow> getRoomSchedules f t2 (snd (getRoomSchedules f t1 s ev)) ev
            = getRoomSchedules f t1 s ev)"
  using getRooms_same_occupancy [of s t1 t2 f ev] getRoomSchedules_same_day [of t1 t2 f s ev]
  by (simp add: getRooms_store getRoomSchedules_store)

text \<open>
  On the example store the room list at 09:45 is the one of 09:15, both within the booking
  of room 1, and the schedule at 20:00 is the one of 08:00.
\<close>

theorem reads_repeat_until_a_booking_changes_witness:
  "getRooms no_faults (at_clock 9 45)
      (snd (getRooms no_faults (at_clock 9 15) example_store get_event)) get_event
    = (respond 200 (RoomsWithStatus [\<lparr>rs_id = 1, rs_name = ''Room A'', is_available = False\<rparr>]),
       example_store)
   \<and> getRoomSchedules no_faults (at_clock 20 0)
      (snd (getRoomSchedules no_faults (at_clock 8 0) example_store get_event)) get_event
    = getRoomSchedules no_faults (at_clock 8 0) example_store get_event"
proof -
  have same: "\<forall>b \<in> set (bookings example_store).
          (b_start_time b \<le> at_clock 9 15 \<and> at_clock 9 15 \<le> b_end_time b) \<longleftrightarrow>
          (b_start_time b \<le> at_clock 9 45 \<and> at_clock 9 45 \<le> b_end_time b)"
    by (simp add: example_store_def at_clock_def)
  have day: "day_number (at_clock 8 0) = day_number (at_clock 20 0)"
    by (simp add: day_number_def at_clock_def msPerDay_def)
  have first: "getRooms no_faults (at_clock 9 15) example_store get_event
    = (respond 200 (RoomsWithStatus [\<lparr>rs_id = 1, rs_name = ''Room A'', is_available = False\<rparr>]),
       example_store)"
    by code_simp
  note inst = reads_repeat_until_a_booking_changes
    [of no_faults _ example_store get_event]
  from inst [of "at_clock 9 15" "at_clock 9 45"] same
  have a: "getRooms no_faults (at_clock 9 45)
      (snd (getRooms no_faults (at_clock 9 15) example_store get_event)) get_event
    = getRooms no_faults (at_clock 9 15) example_store get_event"
    by blast
  from inst [of "at_clock 8 0" "at_clock 20 0"] day
  have b: "getRoomSchedules no_faults (at_clock 20 0)
      (snd (getRoomSchedules no_faults (at_clock 8 0) example_store get_event)) get_event
    = getRoomSchedules no_faults (at_clock 8 0) example_store get_event"
    by blast
  from a b first show ?thesis by simp
qed

text \<open>
  C9 as stated fails: with no write to the example store, the room list at 10:00 marks
  room 1 unavailable and the room list one millisecond later marks it available.
\<close>

theorem availability_changes_without_write_counterexample:
  "snd (getRooms no_faults (at_clock 10 0) example_store get_event) = example_store
   \<and> getRooms no_faults (at_clock 10 0) example_store get_event
     = (respond 200 (RoomsWithStatus [\<lparr>rs_id = 1, rs_name = ''Room A'', is_available = False\<rparr>]),
        example_store)
   \<and> getRooms no_faults (at_clock 10 0 + 1)
        (snd (getRooms no_faults (at_clock 10 0) example_store get_event)) get_event
     = (respond 200 (RoomsWithStatus [\<lparr>rs_id = 1, rs_name = ''Room A'', is_available = True\<rparr>]),
        example_store)
   \<and> getRooms no_faults (at_clock 10 0 + 1)
        (snd (getRooms no_faults (at_clock 10 0) example_store get_event)) get_event
     \<noteq> getRooms no_faults (at_clock 10 0) example_store get_event"
  by code_simp

text \<open>
  C3 (the schedule view and the student identifiers), as the handler has it.  Every booking
  of the schedule is returned with its \<^verbatim>\<open>student_id\<close>, \<^verbatim>\<open>start_time\<close> and \<^verbatim>\<open>end_time\<close>.
  Changing the student identifiers stored on the bookings, with the rooms and every other
  column of the bookings fixed, changes nothing in the response but those \<^verbatim>\<open>student_id\<close>
  fields: with them blanked the two responses are identical.  For a GET whose queries
  succeed the body lists, for every active room in order of id, the entries of the
  bookings of that room in the display window in order of start time.
\<close>

theorem schedule_student_ids:
  assumes "rooms s = rooms s'"
    and "map forget_student (bookings s) = map forget_student (bookings s')"
  shows "blank_student_ids (fst (getRoomSchedules f now s ev))
           = blank_student_ids (fst (getRoomSchedules f now s' ev))
       \<and> (httpMethod ev = ''GET'' \<and> roomsError f = None \<and> bookingsError f = None \<longrightarrow>
            fst (getRoomSchedules f now s ev) =
              respond 200 (Schedules (day_number now)
                (map (\<lambda>r. \<lparr>sch_id = r_id r, sch_name = r_name r,
                           sch_bookings = map schedule_entry_of
                             (filter (\<lambda>b. b_room_id b = r_id r)
                                (sort_key b_start_time
                                   (filter (\<lambda>b. b_end_time b \<ge> local_midnight now + 8 * 3600000
                                        \<and> b_start_time b \<le> local_midnight now + 19 * 3600000)
                                      (bookings s))))\<rparr>)
                   (sort_key r_id (filter r_is_active (rooms s))))))"
proof -
  let ?lo = "local_midnight now + 8 * 3600000" and ?hi = "local_midnight now + 19 * 3600000"
  let ?entries = "\<lambda>bs k. map schedule_entry_of
                             (filter (\<lambda>b. b_room_id b = k)
                                (sort_key b_start_time
                                   (filter (\<lambda>b. b_end_time b \<ge> ?lo \<and> b_start_time b \<le> ?hi) bs)))"
  let ?body = "\<lambda>t. Schedules (day_number now)
                (map (\<lambda>r. \<lparr>sch_id = r_id r, sch_name = r_name r,
                           sch_bookings = ?entries (bookings t) (r_id r)\<rparr>)
                   (sort_key r_id (filter r_is_active (rooms t))))"
  have shape: "fst (getRoomSchedules f now t ev) = respond 200 (?body t)"
    if "httpMethod ev = ''GET''" "roomsError f = None" "bookingsError f = None" for t
    using getRoomSchedules_get [OF that, of now t] by simp
  have blank: "blank_student_ids (respond 200 (?body t))
      = respond 200 (Schedules (day_number now)
          (map (\<lambda>r. \<lparr>sch_id = r_id r, sch_name = r_name r,
                     sch_bookings = ?entries (map forget_student (bookings t)) (r_id r)\<rparr>)
             (sort_key r_id (filter r_is_active (rooms t)))))" for t
    by (simp add: blank_student_ids_def respond_def comp_def blank_room_entries)
  have same: "blank_student_ids (fst (getRoomSchedules f now s ev))
           = blank_student_ids (fst (getRoomSchedules f now s' ev))"
  proof (cases "httpMethod ev = ''GET'' \<and> roomsError f = None \<and> bookingsError f = None")
    case True
    then show ?thesis
      using shape [of s] shape [of s'] blank [of s] blank [of s'] assms by simp
  next
    case False
    then have "fst (getRoomSchedules f now s ev) = fst (getRoomSchedules f now s' ev)"
      by (auto simp: getRoomSchedules_def select_active_rooms_def select_bookings_between_def
            Let_def split: option.splits)
    then show ?thesis by simp
  qed
  from same shape [of s] show ?thesis by blast
qed

text \<open>
  The example store and the store with another student on its booking give the same
  schedule once the student identifiers are blanked.
\<close>

theorem schedule_student_ids_witness:
  "blank_student_ids (fst (getRoomSchedules no_faults (at_clock 8 0) example_store get_event))
     = blank_student_ids (fst (getRoomSchedules no_faults (at_clock 8 0)
         (example_store\<lparr>bookings := [\<lparr>b_id = 1, b_room_id = 1, b_student_id = ''111111'',
                           b_start_time = at_clock 9 0, b_end_time = at_clock 10 0\<rparr>]\<rparr>)
         get_event))
   \<and> blank_student_ids (fst (getRoomSchedules no_faults (at_clock 8 0) example_store get_event))
     = respond 200 (Schedules 20760
         [\<lparr>sch_id = 1, sch_name = ''Room A'',
           sch_bookings = [\<lparr>se_student_id = [], se_start_time = at_clock 9 0,
                            se_end_time = at_clock 10 0\<rparr>]\<rparr>])"
proof -
  let ?s' = "example_store\<lparr>bookings := [\<lparr>b_id = 1, b_room_id = 1, b_student_id = ''111111'',
                           b_start_time = at_clock 9 0, b_end_time = at_clock 10 0\<rparr>]\<rparr>"
  have r: "rooms example_store = rooms ?s'"
    by simp
  have b: "map forget_student (bookings example_store) = map forget_student (bookings ?s')"
    by (simp add: example_store_def forget_student_def)
  have "blank_student_ids (fst (getRoomSchedules no_faults (at_clock 8 0) example_store get_event))
     = respond 200 (Schedules 20760
         [\<lparr>sch_id = 1, sch_name = ''Room A'',
           sch_bookings = [\<lparr>se_student_id = [], se_start_time = at_clock 9 0,
                            se_end_time = at_clock 10 0\<rparr>]\<rparr>])"
    by code_simp
  with schedule_student_ids [OF r b, of no_faults "at_clock 8 0" get_event]
  show ?thesis by blast
qed

text \<open>
  C3 as stated fails: the two stores differ in the \<^verbatim>\<open>student_id\<close> of one booking only, and
  the two response bodies differ, each carrying the stored student identifier.
\<close>

theorem student_id_in_schedule_counterexample:
  "fst (getRoomSchedules no_faults (at_clock 8 0) example_store get_event)
     = respond 200 (Schedules 20760
         [\<lparr>sch_id = 1, sch_name = ''Room A'',
           sch_bookings = [\<lparr>se_student_id = ''654321'', se_start_time = at_clock 9 0,
                            se_end_time = at_clock 10 0\<rparr>]\<rparr>])
   \<and> fst (getRoomSchedules no_faults (at_clock 8 0)
         (example_store\<lparr>bookings := [\<lparr>b_id = 1, b_room_id = 1, b_student_id = ''111111'',
                           b_start_time = at_clock 9 0, b_end_time = at_clock 10 0\<rparr>]\<rparr>)
         get_event)
     = respond 200 (Schedules 20760
         [\<lparr>sch_id = 1, sch_name = ''Room A'',
           sch_bookings = [\<lparr>se_student_id = ''111111'', se_start_time = at_clock 9 0,
                            se_end_time = at_clock 10 0\<rparr>]\<rparr>])
   \<and> fst (getRoomSchedules no_faults (at_clock 8 0) example_store get_event)
       \<noteq> fst (getRoomSchedules no_faults (at_clock 8 0)
         (example_store\<lparr>bookings := [\<lparr>b_id = 1, b_room_id = 1, b_student_id = ''111111'',
                           b_start_time = at_clock 9 0, b_end_time = at_clock 10 0\<rparr>]\<rparr>)
         get_event)"
  by code_simp

end
